theory Spec2Isabelle
  imports Main "HOL-Library.Sublist"
begin

section \<open>JavaScript values used by the chat client\<close>

text \<open>
  Strings are lists of characters.  The source works on UTF-16 code units; every pattern
  and literal the modelled functions compare against is ASCII, and a unit outside ASCII
  never compares equal to an ASCII one, so 8-bit characters lose nothing here.
  Optional properties are \<open>option\<close> values: \<open>None\<close> is an absent key (\<open>undefined\<close>).
\<close>

definition truthyStr :: "string option \<Rightarrow> bool" where
  \<comment> \<open>JavaScript truthiness of an optional string: \<open>undefined\<close> and \<open>''''\<close> are falsy.\<close>
  "truthyStr s = (case s of None \<Rightarrow> False | Some v \<Rightarrow> v \<noteq> [])"

definition orElse :: "'a option \<Rightarrow> 'a option \<Rightarrow> 'a option" where
  \<comment> \<open>\<open>a ?? b\<close>, and the value a key has after \<open>{...b, ...a}\<close>.\<close>
  "orElse a b = (case a of None \<Rightarrow> b | Some v \<Rightarrow> Some v)"

definition digit_char :: "nat \<Rightarrow> char" where
  "digit_char d = ''0123456789'' ! d"

function showNat :: "nat \<Rightarrow> string" where
  "showNat n = (if n < 10 then [digit_char n] else showNat (n div 10) @ [digit_char (n mod 10)])"
  by pat_completeness auto
termination
  by (relation "measure id") auto

declare showNat.simps [simp del]

definition showInt :: "int \<Rightarrow> string" where
  \<comment> \<open>Decimal text of an integral JavaScript number, as a template literal prints it
      (line numbers; magnitudes below \<open>10^21\<close>, where JavaScript still prints all digits).\<close>
  "showInt i = (if i < 0 then CHR ''-'' # showNat (nat (- i)) else showNat (nat i))"

fun join :: "string \<Rightarrow> string list \<Rightarrow> string" where
  "join sep [] = []"
| "join sep [x] = x"
| "join sep (x # y # ys) = x @ sep @ join sep (y # ys)"


section \<open>Request context builder (QChatTriggerContext)\<close>

datatype UserIntent =
    EXPLAIN_CODE_SELECTION
  | SUGGEST_ALTERNATE_IMPLEMENTATION
  | APPLY_COMMON_BEST_PRACTICES
  | IMPROVE_CODE

definition canonicalize :: "char \<Rightarrow> nat" where
  \<comment> \<open>Canonicalize of a regular expression with the \<open>i\<close> flag and no \<open>u\<close> flag: the
      code unit of the upper-case form; only \<open>a\<close>..\<open>z\<close> change among 8-bit units.\<close>
  "canonicalize c =
     (let n = (of_char c :: nat) in if 97 \<le> n \<and> n \<le> 122 then n - 32 else n)"

fun test_anchored_i :: "string \<Rightarrow> string \<Rightarrow> bool" where
  \<comment> \<open>\<open>/^lit/i.test(s)\<close> for a pattern \<open>lit\<close> of literal characters.\<close>
  "test_anchored_i [] s = True"
| "test_anchored_i (p # ps) [] = False"
| "test_anchored_i (p # ps) (c # cs) =
     (canonicalize p = canonicalize c \<and> test_anchored_i ps cs)"

definition guessIntentFromPrompt :: "string option \<Rightarrow> UserIntent option" where
  "guessIntentFromPrompt prompt =
     (case prompt of
        None \<Rightarrow> None
      | Some s \<Rightarrow>
          if test_anchored_i ''explain'' s then Some EXPLAIN_CODE_SELECTION
          else if test_anchored_i ''refactor'' s then Some SUGGEST_ALTERNATE_IMPLEMENTATION
          else if test_anchored_i ''fix'' s then Some APPLY_COMMON_BEST_PRACTICES
          else if test_anchored_i ''optimize'' s then Some IMPROVE_CODE
          else None)"

text \<open>
  The specification's reading of intent guessing, written independently of the regular
  expressions: lower-case the prompt, then take the first row of the ordered table whose
  keyword is a prefix of it.
\<close>

definition lower_ascii :: "char \<Rightarrow> nat" where
  "lower_ascii c =
     (let n = (of_char c :: nat) in if 65 \<le> n \<and> n \<le> 90 then n + 32 else n)"

definition intent_table :: "(string \<times> UserIntent) list" where
  "intent_table =
     [(''explain'', EXPLAIN_CODE_SELECTION),
      (''refactor'', SUGGEST_ALTERNATE_IMPLEMENTATION),
      (''fix'', APPLY_COMMON_BEST_PRACTICES),
      (''optimize'', IMPROVE_CODE)]"

definition spec_first_prefix_intent :: "string \<Rightarrow> UserIntent option" where
  "spec_first_prefix_intent s =
     map_option snd
       (find (\<lambda>(p, i). prefix (map of_char p) (map lower_ascii s)) intent_table)"


subsection \<open>Building the outbound request\<close>

record Position =
  line :: nat
  character :: nat

datatype CursorState = AtPosition Position | AtRange Position Position

datatype TriggerType = Hotkeys | Click | ContextMenu

datatype ChatTriggerType = MANUAL | DIAGNOSTIC | INLINE_CHAT

record ChatPrompt =
  prompt :: "string option"
  escapedPrompt :: "string option"
  command :: "string option"

record ChatParams =
  params_tabId :: string
  chatPrompt :: ChatPrompt  \<comment> \<open>the property \<open>prompt\<close> of the parameters\<close>

record TriggerContext =
  cursorState :: "CursorState option"
  context_text :: "string option"  \<comment> \<open>the property \<open>text\<close>\<close>
  programmingLanguage :: "string option"
  relativeFilePath :: "string option"
  userIntent :: "UserIntent option"
  triggerType :: "TriggerType option"

type_synonym Tool = string

record TextDocument =
  document_text :: "string option"
  document_programmingLanguage :: "string option"
  document_relativeFilePath :: "string option"

record EditorState =
  editor_cursorState :: "CursorState option"
  document :: TextDocument

record UserInputMessageContext =
  editorState :: "EditorState option"
  tools :: "Tool list"

record UserInputMessage =
  content :: "string option"
  userInputMessageContext :: UserInputMessageContext
  message_userIntent :: "UserIntent option"
  origin :: string

record ConversationState =
  chatTriggerType :: ChatTriggerType
  userInputMessage :: UserInputMessage  \<comment> \<open>\<open>currentMessage.userInputMessage\<close>\<close>
  customizationArn :: "string option"

record SendMessageCommandInput =
  conversationState :: ConversationState
  profileArn :: "string option"

definition getChatParamsFromTrigger ::
  "ChatParams \<Rightarrow> TriggerContext \<Rightarrow> ChatTriggerType \<Rightarrow> string option \<Rightarrow> string option
     \<Rightarrow> Tool list option \<Rightarrow> SendMessageCommandInput" where
  "getChatParamsFromTrigger params triggerContext trig custArn profArn toolsArg =
     (let tls = (case toolsArg of None \<Rightarrow> [] | Some t \<Rightarrow> t);
          p = chatPrompt params
      in \<lparr>conversationState =
            \<lparr>chatTriggerType = trig,
             userInputMessage =
               \<lparr>content = orElse (escapedPrompt p) (prompt p),
                userInputMessageContext =
                  (if cursorState triggerContext \<noteq> None
                      \<and> truthyStr (relativeFilePath triggerContext)
                   then \<lparr>editorState =
                           Some \<lparr>editor_cursorState = cursorState triggerContext,
                                 document =
                                   \<lparr>document_text = context_text triggerContext,
                                    document_programmingLanguage =
                                      programmingLanguage triggerContext,
                                    document_relativeFilePath =
                                      relativeFilePath triggerContext\<rparr>\<rparr>,
                         tools = tls\<rparr>
                   else \<lparr>editorState = None, tools = tls\<rparr>),
                message_userIntent = userIntent triggerContext,
                origin = ''IDE''\<rparr>,
             customizationArn = custArn\<rparr>,
          profileArn = profArn\<rparr>)"

definition example_params :: ChatParams where
  "example_params =
     \<lparr>params_tabId = ''tab-1'',
      chatPrompt = \<lparr>prompt = Some ''a < b'', escapedPrompt = Some ''a &lt; b'', command = None\<rparr>\<rparr>"

definition example_context :: TriggerContext where
  "example_context =
     \<lparr>cursorState = Some (AtPosition \<lparr>line = 0, character = 0\<rparr>),
      context_text = Some ''let a = 1'',
      programmingLanguage = Some ''typescript'',
      relativeFilePath = Some ''src/a.ts'',
      userIntent = None,
      triggerType = None\<rparr>"


section \<open>Context command translator\<close>

text \<open>
  A context command is a quick-action command with an identifier and optional nested
  groups of further commands; the fields are, in order: command, description,
  placeholder, icon, id, route, label, children.  The translation \<open>toMynahIcon\<close> of an
  icon identifier lives outside the modelled file and is a parameter.
\<close>

datatype ContextCommand =
  ContextCommand string "string option" "string option" "string option" "string option"
    "string list option" "string option" "ContextCommandGroup list option"
and ContextCommandGroup =
  ContextCommandGroup "string option" "ContextCommand list"

primrec toContextCommand ::
    "(string option \<Rightarrow> string option) \<Rightarrow> ContextCommand \<Rightarrow> ContextCommand"
  and toContextCommandGroup ::
    "(string option \<Rightarrow> string option) \<Rightarrow> ContextCommandGroup \<Rightarrow> ContextCommandGroup"
where
  "toContextCommand toMynahIcon (ContextCommand c d p i n r l ch) =
     ContextCommand c d p (toMynahIcon i) n r l
       (map_option (map (toContextCommandGroup toMynahIcon)) ch)"
| "toContextCommandGroup toMynahIcon (ContextCommandGroup g cs) =
     ContextCommandGroup g (map (toContextCommand toMynahIcon) cs)"

definition toContextCommands ::
  "(string option \<Rightarrow> string option) \<Rightarrow> ContextCommand list \<Rightarrow> ContextCommand list" where
  "toContextCommands toMynahIcon cmds = map (toContextCommand toMynahIcon) cmds"

text \<open>Observations of a command tree used to state what the translation preserves.\<close>

primrec nodes :: "ContextCommand \<Rightarrow> nat"
  and group_nodes :: "ContextCommandGroup \<Rightarrow> nat"
where
  "nodes (ContextCommand c d p i n r l ch) =
     Suc (case map_option (map group_nodes) ch of None \<Rightarrow> 0 | Some ns \<Rightarrow> sum_list ns)"
| "group_nodes (ContextCommandGroup g cs) = sum_list (map nodes cs)"

primrec depth :: "ContextCommand \<Rightarrow> nat"
  and group_depth :: "ContextCommandGroup \<Rightarrow> nat"
where
  "depth (ContextCommand c d p i n r l ch) =
     Suc (case map_option (map group_depth) ch of None \<Rightarrow> 0 | Some ds \<Rightarrow> fold max ds 0)"
| "group_depth (ContextCommandGroup g cs) = fold max (map depth cs) 0"

primrec icons :: "ContextCommand \<Rightarrow> string option list"
  and group_icons :: "ContextCommandGroup \<Rightarrow> string option list"
where
  "icons (ContextCommand c d p i n r l ch) =
     i # (case map_option (map group_icons) ch of None \<Rightarrow> [] | Some is \<Rightarrow> concat is)"
| "group_icons (ContextCommandGroup g cs) = concat (map icons cs)"

primrec withoutIcons :: "ContextCommand \<Rightarrow> ContextCommand"
  and group_withoutIcons :: "ContextCommandGroup \<Rightarrow> ContextCommandGroup"
where
  "withoutIcons (ContextCommand c d p i n r l ch) =
     ContextCommand c d p None n r l (map_option (map group_withoutIcons) ch)"
| "group_withoutIcons (ContextCommandGroup g cs) =
     ContextCommandGroup g (map withoutIcons cs)"

section \<open>Chat results and chat items\<close>

record LineRange =
  first :: int
  second :: int

record FileDetails =
  details_description :: "string option"
  lineRanges :: "LineRange list option"

record FileList =
  filePaths :: "string list option"
  details :: "(string \<times> FileDetails) list option"

record FollowUpOption =
  pillText :: string
  option_prompt :: "string option"
  option_type :: "string option"

record FollowUp =
  followUp_text :: "string option"
  options :: "FollowUpOption list option"

record RelatedContent =
  title :: "string option"
  links :: "string list"

text \<open>
  The properties a chat result shares with a chat item (\<open>chatResultWithoutType\<close> in the
  source), then the result itself and the item of the UI toolkit.
\<close>

record ChatContent =
  body :: "string option"
  messageId :: "string option"
  canBeVoted :: "bool option"
  relatedContent :: "RelatedContent option"
  followUp :: "FollowUp option"
  contextList :: "FileList option"
  codeReference :: "string list option"

record ChatResult =
  resultType :: "string option"  \<comment> \<open>the property \<open>type\<close>\<close>
  withoutType :: ChatContent

datatype ChatItemType = PROMPT | ANSWER | ANSWER_STREAM | SYSTEM_PROMPT

record TreeNodeDetails =
  label :: string
  description :: string
  clickable :: bool

record FileListView =
  fileTreeTitle :: string
  view_filePaths :: "string list option"
  rootFolderTitle :: string
  flatList :: bool
  collapsed :: bool
  hideFileCount :: bool
  view_details :: "(string \<times> TreeNodeDetails) list"

record ChatItemHeader =
  fileList :: FileListView

record ChatItem =
  itemType :: "ChatItemType option"  \<comment> \<open>the property \<open>type\<close>; absent in a partial item\<close>
  header :: "ChatItemHeader option"
  itemContent :: ChatContent  \<comment> \<open>the remaining properties, spread into the item\<close>

definition emptyContent :: ChatContent where
  "emptyContent =
     \<lparr>body = None, messageId = None, canBeVoted = None, relatedContent = None,
      followUp = None, contextList = None, codeReference = None\<rparr>"

definition objectKeys :: "ChatResult \<Rightarrow> string list" where
  \<comment> \<open>\<open>Object.keys(chatResult)\<close>: the keys the result carries.\<close>
  "objectKeys r =
     (let w = withoutType r in
      (if resultType r \<noteq> None then [''type''] else [])
      @ (if body w \<noteq> None then [''body''] else [])
      @ (if messageId w \<noteq> None then [''messageId''] else [])
      @ (if canBeVoted w \<noteq> None then [''canBeVoted''] else [])
      @ (if relatedContent w \<noteq> None then [''relatedContent''] else [])
      @ (if followUp w \<noteq> None then [''followUp''] else [])
      @ (if contextList w \<noteq> None then [''contextList''] else [])
      @ (if codeReference w \<noteq> None then [''codeReference''] else []))"

definition lineRangeLabel :: "LineRange \<Rightarrow> string" where
  "lineRangeLabel r =
     (if first r = - 1 \<or> second r = - 1 then []
      else ''line '' @ showInt (first r) @ '' - '' @ showInt (second r))"

definition fileLabel :: "FileDetails \<Rightarrow> string" where
  "fileLabel fileDetails =
     (case lineRanges fileDetails of
        None \<Rightarrow> []
      | Some rs \<Rightarrow>
          (let joined = join '', '' (map lineRangeLabel rs)
           in if joined = [] then [] else joined))"

definition contextHeader :: "ChatResult \<Rightarrow> ChatItemHeader option" where
  \<comment> \<open>The \<open>header\<close> computed at the start of \<open>addChatResponse\<close>.\<close>
  "contextHeader r =
     (case contextList (withoutType r) of
        None \<Rightarrow> None
      | Some cl \<Rightarrow>
          Some \<lparr>fileList =
            \<lparr>fileTreeTitle = [],
             view_filePaths = map_option (map (\<lambda>file. file)) (filePaths cl),
             rootFolderTitle = ''Context'',
             flatList = True,
             collapsed = True,
             hideFileCount = True,
             view_details =
               map (\<lambda>(filePath, fileDetails).
                      (filePath,
                       \<lparr>label = fileLabel fileDetails, description = filePath,
                        clickable = True\<rparr>))
                   (case details cl of None \<Rightarrow> [] | Some d \<Rightarrow> d)\<rparr>\<rparr>)"

definition isValidAuthFollowUp :: "(string \<Rightarrow> bool) \<Rightarrow> ChatResult \<Rightarrow> bool" where
  \<comment> \<open>The recogniser \<open>isValidAuthFollowUpType\<close> comes from a types package and is a
      parameter.\<close>
  "isValidAuthFollowUp isValidAuthFollowUpType r =
     (case followUp (withoutType r) of
        None \<Rightarrow> False
      | Some fu \<Rightarrow>
          (case options fu of
             None \<Rightarrow> False
           | Some [] \<Rightarrow> False
           | Some (opt # _) \<Rightarrow>
               (case option_type opt of
                  None \<Rightarrow> False
                | Some t \<Rightarrow> t \<noteq> [] \<and> isValidAuthFollowUpType t)))"

section \<open>The client state: tab registry, toolkit calls and outbound messages\<close>

datatype StickyCard = DisclaimerCard  \<comment> \<open>the card \<open>disclaimerCard\<close> of the texts module\<close>

record MynahUIDataModel =
  chatItems :: "ChatItem list option"
  loadingChat :: "bool option"
  promptInputDisabledState :: "bool option"
  contextCommands :: "ContextCommandGroup list option"
  quickActionCommands :: "ContextCommandGroup list option"
  promptInputStickyCard :: "StickyCard option"

datatype NotificationType = INFO | SUCCESS | WARNING | ERROR

record ErrorParams =
  error_tabId :: string  \<comment> \<open>the property \<open>tabId\<close>\<close>
  error_title :: string
  error_message :: string

datatype UiCall =
    UpdateStoreCall string MynahUIDataModel
  | AddChatItemCall string ChatItem
  | UpdateLastChatAnswerCall string ChatItem
  | EndMessageStreamCall string string
  | NotifyCall string NotificationType

datatype Outbound =
    OnQuickActionCommand string "string option" string
      \<comment> \<open>quickAction, prompt, tabId\<close>
  | OnChatPrompt ChatPrompt string "TriggerType option"
  | OnError ErrorParams
  | OnTabAdd string

text \<open>
  The client closes over the toolkit instance, the messager and two variables.  The state
  holds the toolkit's tab registry in creation order, the selected tab, every call made
  on the toolkit and every message handed to the messager, both in program order.
\<close>

record ChatClient =
  tabs :: "(string \<times> MynahUIDataModel) list"
  selectedTabId :: "string option"
  uidCounter :: nat
  uiCalls :: "UiCall list"
  sent :: "Outbound list"
  disclaimerCardActive :: bool
  contextCommandGroups :: "ContextCommandGroup list option"
  defaultQuickActionCommands :: "ContextCommandGroup list option"
    \<comment> \<open>\<open>tabFactory.getDefaultTabData().quickActionCommands\<close>, read by the tab-add handler\<close>

definition maxTabs :: nat where
  \<comment> \<open>\<open>config.maxTabs\<close> of the properties the toolkit is created with.\<close>
  "maxTabs = 10"

definition noMoreTabsTooltip :: string where
  "noMoreTabsTooltip = ''You can only open ten conversation tabs at a time.''"

definition DEFAULT_HELP_PROMPT :: string where
  "DEFAULT_HELP_PROMPT = ''What can Amazon Q help me with?''"

definition getTab :: "ChatClient \<Rightarrow> string \<Rightarrow> MynahUIDataModel option" where
  \<comment> \<open>\<open>getAllTabs()[tabId]?.store\<close>\<close>
  "getTab c tid = map_of (tabs c) tid"

definition itemsOf :: "MynahUIDataModel \<Rightarrow> ChatItem list" where
  "itemsOf s = (case chatItems s of None \<Rightarrow> [] | Some xs \<Rightarrow> xs)"

definition logCall :: "UiCall \<Rightarrow> ChatClient \<Rightarrow> ChatClient" where
  "logCall k c = c\<lparr>uiCalls := uiCalls c @ [k]\<rparr>"

definition send :: "Outbound \<Rightarrow> ChatClient \<Rightarrow> ChatClient" where
  \<comment> \<open>A call on the messager: the message joins the outbound sequence.\<close>
  "send m c = c\<lparr>sent := sent c @ [m]\<rparr>"

definition updTab ::
  "(MynahUIDataModel \<Rightarrow> MynahUIDataModel) \<Rightarrow> string
     \<Rightarrow> (string \<times> MynahUIDataModel) list \<Rightarrow> (string \<times> MynahUIDataModel) list" where
  "updTab f tid ts = map (\<lambda>(k, v). if k = tid then (k, f v) else (k, v)) ts"

definition mergeStore :: "MynahUIDataModel \<Rightarrow> MynahUIDataModel \<Rightarrow> MynahUIDataModel" where
  "mergeStore upd old =
     \<lparr>chatItems = orElse (chatItems upd) (chatItems old),
      loadingChat = orElse (loadingChat upd) (loadingChat old),
      promptInputDisabledState =
        orElse (promptInputDisabledState upd) (promptInputDisabledState old),
      contextCommands = orElse (contextCommands upd) (contextCommands old),
      quickActionCommands = orElse (quickActionCommands upd) (quickActionCommands old),
      promptInputStickyCard =
        orElse (promptInputStickyCard upd) (promptInputStickyCard old)\<rparr>"

definition mergeContent :: "ChatContent \<Rightarrow> ChatContent \<Rightarrow> ChatContent" where
  "mergeContent upd old =
     \<lparr>body = orElse (body upd) (body old),
      messageId = orElse (messageId upd) (messageId old),
      canBeVoted = orElse (canBeVoted upd) (canBeVoted old),
      relatedContent = orElse (relatedContent upd) (relatedContent old),
      followUp = orElse (followUp upd) (followUp old),
      contextList = orElse (contextList upd) (contextList old),
      codeReference = orElse (codeReference upd) (codeReference old)\<rparr>"

definition mergeChatItem :: "ChatItem \<Rightarrow> ChatItem \<Rightarrow> ChatItem" where
  "mergeChatItem upd old =
     \<lparr>itemType = orElse (itemType upd) (itemType old),
      header = orElse (header upd) (header old),
      itemContent = mergeContent (itemContent upd) (itemContent old)\<rparr>"

definition rewriteLast :: "('a \<Rightarrow> 'a) \<Rightarrow> 'a list \<Rightarrow> 'a list" where
  "rewriteLast f xs = (if xs = [] then [] else butlast xs @ [f (last xs)])"

definition endStream :: "ChatItem \<Rightarrow> ChatItem" where
  "endStream it =
     (if itemType it = Some ANSWER_STREAM then it\<lparr>itemType := Some ANSWER\<rparr> else it)"

definition newTabId :: "nat \<Rightarrow> string" where
  "newTabId n = ''tab-'' @ showNat n"

text \<open>
  Modelled from the spec: the UI toolkit (the MynahUI instance) is an external
  collaborator whose code is not among the sources; the spec treats it as a state store
  with an update, query and event-subscription contract.  Its operations are modelled
  from sections 3, 4.1 and 4.3: creation through \<open>updateStore\<close> with the empty tab id
  fails once the cap of live tabs is reached and otherwise registers and selects a fresh
  tab and raises the tab-add event, which runs the client's \<open>onTabAdd\<close> handler; an
  update acts on the named tab only; \<open>addChatItem\<close> appends to the tab's item sequence;
  \<open>updateLastChatAnswer\<close> rewrites the content of the tab's last item in place;
  \<open>endMessageStream\<close> closes the tab's active stream, turning a last streaming answer
  into an answer; \<open>notify\<close> shows a notice.  Every call is also recorded in \<open>uiCalls\<close>.
\<close>

definition defaultTabConfig :: "ChatClient \<Rightarrow> MynahUIDataModel" where
  \<comment> \<open>The object of that name built by the \<open>onTabAdd\<close> handler.\<close>
  "defaultTabConfig c =
     \<lparr>chatItems = None, loadingChat = None, promptInputDisabledState = None,
      contextCommands = contextCommandGroups c,
      quickActionCommands = defaultQuickActionCommands c,
      promptInputStickyCard = (if disclaimerCardActive c then Some DisclaimerCard else None)\<rparr>"

function updateStore ::
    "string \<Rightarrow> MynahUIDataModel \<Rightarrow> ChatClient \<Rightarrow> string option \<times> ChatClient"
  and onTabAdd :: "string \<Rightarrow> ChatClient \<Rightarrow> ChatClient"
where
  \<comment> \<open>Modelled from the spec: the toolkit's store update; the empty tab id asks for a
      new tab, refused at the cap; a tab that is registered is selected and announced to
      the \<open>onTabAdd\<close> handler the toolkit was created with.  The handler itself is the
      one of the source.\<close>
  "updateStore tid data c =
     (let c' = logCall (UpdateStoreCall tid data) c in
      if tid = [] then
        (if length (tabs c') < maxTabs then
           (let new = newTabId (uidCounter c') in
            (Some new,
             onTabAdd new
               (c'\<lparr>tabs := tabs c' @ [(new, data)],
                   selectedTabId := Some new,
                   uidCounter := Suc (uidCounter c')\<rparr>)))
         else (None, c'))
      else (Some tid, c'\<lparr>tabs := updTab (mergeStore data) tid (tabs c')\<rparr>))"
| "onTabAdd tid c =
     send (OnTabAdd tid) (snd (updateStore tid (defaultTabConfig c) c))"
  by pat_completeness auto
termination
  by (relation "measure (\<lambda>x. case x of
                   Inl (tid, d, c) \<Rightarrow> if tid = [] then 3 else 0
                 | Inr (tid, c) \<Rightarrow> if tid = [] then 4 else (1::nat))")
     (auto simp: newTabId_def)

declare updateStore.simps [simp del] onTabAdd.simps [simp del]

definition addChatItem :: "string \<Rightarrow> ChatItem \<Rightarrow> ChatClient \<Rightarrow> ChatClient" where
  \<comment> \<open>Modelled from the spec: the toolkit appends the item to the named tab.\<close>
  "addChatItem tid item c =
     (let c' = logCall (AddChatItemCall tid item) c in
      c'\<lparr>tabs := updTab (\<lambda>s. s\<lparr>chatItems := Some (itemsOf s @ [item])\<rparr>) tid (tabs c')\<rparr>)"

definition updateLastChatAnswer :: "string \<Rightarrow> ChatItem \<Rightarrow> ChatClient \<Rightarrow> ChatClient" where
  \<comment> \<open>Modelled from the spec: the toolkit rewrites the content of the named tab's last item.\<close>
  "updateLastChatAnswer tid upd c =
     (let c' = logCall (UpdateLastChatAnswerCall tid upd) c in
      c'\<lparr>tabs :=
           updTab (\<lambda>s. s\<lparr>chatItems := map_option (rewriteLast (mergeChatItem upd)) (chatItems s)\<rparr>)
             tid (tabs c')\<rparr>)"

definition endMessageStream :: "string \<Rightarrow> string \<Rightarrow> ChatClient \<Rightarrow> ChatClient" where
  \<comment> \<open>Modelled from the spec: the toolkit closes the active stream of the named tab.\<close>
  "endMessageStream tid mid c =
     (let c' = logCall (EndMessageStreamCall tid mid) c in
      c'\<lparr>tabs :=
           updTab (\<lambda>s. s\<lparr>chatItems := map_option (rewriteLast endStream) (chatItems s)\<rparr>)
             tid (tabs c')\<rparr>)"

definition notify :: "string \<Rightarrow> NotificationType \<Rightarrow> ChatClient \<Rightarrow> ChatClient" where
  \<comment> \<open>Modelled from the spec: the toolkit shows a notice; only the call is recorded.\<close>
  "notify text_content ntype c = logCall (NotifyCall text_content ntype) c"

definition getSelectedTabId :: "ChatClient \<Rightarrow> string option" where
  "getSelectedTabId c = selectedTabId c"


section \<open>The handlers of the chat client\<close>

definition showPromptAndStream :: "string \<Rightarrow> string option \<Rightarrow> ChatClient \<Rightarrow> ChatClient" where
  \<comment> \<open>The tail of \<open>handleChatPrompt\<close>: prompt item, loading state, empty response.\<close>
  "showPromptAndStream tid userPrompt c =
     (let c1 = addChatItem tid
                 \<lparr>itemType = Some PROMPT, header = None,
                  itemContent = emptyContent\<lparr>body := userPrompt\<rparr>\<rparr> c;
          c2 = snd (updateStore tid
                 \<lparr>chatItems = None, loadingChat = Some True,
                  promptInputDisabledState = Some True, contextCommands = None,
      quickActionCommands = None, promptInputStickyCard = None\<rparr> c1)
      in addChatItem tid
           \<lparr>itemType = Some ANSWER_STREAM, header = None, itemContent = emptyContent\<rparr> c2)"

definition handleChatPrompt ::
  "string \<Rightarrow> ChatPrompt \<Rightarrow> TriggerType option \<Rightarrow> ChatClient \<Rightarrow> ChatClient" where
  "handleChatPrompt tid p trig c =
     (let userPrompt = escapedPrompt p in
      case (if truthyStr (command p) then command p else None) of
        Some cmd \<Rightarrow>
          (let c1 = (if cmd = ''/clear''
                     then snd (updateStore tid
                            \<lparr>chatItems = Some [], loadingChat = None,
                             promptInputDisabledState = None, contextCommands = None,
      quickActionCommands = None, promptInputStickyCard = None\<rparr> c)
                     else c);
               userPrompt' = (if cmd \<noteq> ''/clear'' \<and> cmd = ''/help''
                              then Some DEFAULT_HELP_PROMPT else userPrompt);
               c2 = send (OnQuickActionCommand cmd userPrompt' tid) c1
           in if cmd = ''/clear'' then c2 else showPromptAndStream tid userPrompt' c2)
      | None \<Rightarrow> showPromptAndStream tid userPrompt (send (OnChatPrompt p tid trig) c))"

text \<open>
  \<open>tabFactory.createTab\<close> builds the initial data of a tab from the welcome flag, the
  disclaimer flag and optional seed messages; it lives in another file and is the
  parameter \<open>createTab\<close>.
\<close>

type_synonym TabFactory = "bool \<Rightarrow> bool \<Rightarrow> ChatResult list option \<Rightarrow> MynahUIDataModel"

definition createTabId ::
  "TabFactory \<Rightarrow> bool \<Rightarrow> ChatResult list option \<Rightarrow> ChatClient \<Rightarrow> string option \<times> ChatClient" where
  "createTabId createTab needWelcomeMessages chatMessages c =
     (case updateStore [] (createTab needWelcomeMessages (disclaimerCardActive c) chatMessages) c of
        (None, c') \<Rightarrow> (None, notify noMoreTabsTooltip WARNING c')
      | (Some tid, c') \<Rightarrow> (Some tid, c'))"

definition getOrCreateTabId :: "TabFactory \<Rightarrow> ChatClient \<Rightarrow> string option \<times> ChatClient" where
  "getOrCreateTabId createTab c =
     (case getSelectedTabId c of
        Some tid \<Rightarrow> (Some tid, c)
      | None \<Rightarrow> createTabId createTab False None c)"

fun createTabs :: "TabFactory \<Rightarrow> nat \<Rightarrow> ChatClient \<Rightarrow> ChatClient" where
  \<comment> \<open>A run of \<open>n\<close> successive calls of \<open>createTabId\<close>.\<close>
  "createTabs createTab 0 c = c"
| "createTabs createTab (Suc n) c =
     createTabs createTab n (snd (createTabId createTab False None c))"

definition addChatResponse ::
  "(string \<Rightarrow> bool) \<Rightarrow> ChatResult \<Rightarrow> string \<Rightarrow> bool \<Rightarrow> ChatClient \<Rightarrow> ChatClient" where
  "addChatResponse isValidAuthFollowUpType chatResult tid isPartialResult c =
     (let hdr = contextHeader chatResult;
          w = withoutType chatResult
      in if isPartialResult then
           updateLastChatAnswer tid \<lparr>itemType = None, header = hdr, itemContent = w\<rparr> c
         else if length (objectKeys chatResult) = 0 then c
         else if body w = Some [] \<and> isValidAuthFollowUp isValidAuthFollowUpType chatResult then
           addChatItem tid \<lparr>itemType = Some SYSTEM_PROMPT, header = None, itemContent = w\<rparr> c
         else
           (let followUps =
                  (case followUp w of
                     Some fu \<Rightarrow>
                       \<lparr>followUp_text =
                          orElse (followUp_text fu) (Some ''Suggested follow up questions:''),
                        options = options fu\<rparr>
                   | None \<Rightarrow> \<lparr>followUp_text = None, options = None\<rparr>);
                c1 = updateLastChatAnswer tid
                       \<lparr>itemType = None, header = hdr,
                        itemContent =
                          \<lparr>body = body w, messageId = messageId w,
                           canBeVoted = canBeVoted w, relatedContent = relatedContent w,
                           followUp = Some followUps, contextList = None,
                           codeReference = None\<rparr>\<rparr> c;
                c2 = endMessageStream tid (case messageId w of None \<Rightarrow> [] | Some m \<Rightarrow> m) c1
            in snd (updateStore tid
                 \<lparr>chatItems = None, loadingChat = Some False,
                  promptInputDisabledState = Some False, contextCommands = None,
      quickActionCommands = None, promptInputStickyCard = None\<rparr> c2)))"

definition showError :: "TabFactory \<Rightarrow> ErrorParams \<Rightarrow> ChatClient \<Rightarrow> ChatClient" where
  "showError createTab params c =
     (case getOrCreateTabId createTab c of
        (None, c1) \<Rightarrow> c1
      | (Some tid, c1) \<Rightarrow>
          if tid = [] then c1
          else
            (let answer =
                   \<lparr>itemType = Some ANSWER, header = None,
                    itemContent = emptyContent
                      \<lparr>body := Some (''**'' @ error_title params @ ''** '' @ [CHR 0x0A]
                                      @ error_message params)\<rparr>\<rparr>;
                 c2 = snd (updateStore tid
                        \<lparr>chatItems = None, loadingChat = Some False,
                         promptInputDisabledState = Some False, contextCommands = None,
      quickActionCommands = None, promptInputStickyCard = None\<rparr> c1);
                 c3 = addChatItem (error_tabId params) answer c2
             in send (OnError params) c3))"

definition sendContextCommands ::
  "(string option \<Rightarrow> string option) \<Rightarrow> ContextCommandGroup list \<Rightarrow> ChatClient \<Rightarrow> ChatClient" where
  "sendContextCommands toMynahIcon groups c =
     (let translated =
            map (\<lambda>g. case g of ContextCommandGroup name cmds \<Rightarrow>
                        ContextCommandGroup name (toContextCommands toMynahIcon cmds)) groups;
          c1 = c\<lparr>contextCommandGroups := Some translated\<rparr>
      in fold (\<lambda>tid c'. snd (updateStore tid
                 \<lparr>chatItems = None, loadingChat = None, promptInputDisabledState = None,
                  contextCommands = contextCommandGroups c1,
                  quickActionCommands = None, promptInputStickyCard = None\<rparr> c'))
           (map fst (tabs c1)) c1)"

section \<open>Concrete inputs\<close>

text \<open>Values at which the general results below are instantiated and evaluated.\<close>

definition knownAuthType :: "string \<Rightarrow> bool" where
  \<comment> \<open>A recogniser of authentication follow-up types, standing in for the imported one.\<close>
  "knownAuthType t = (t \<in> set [''full-auth'', ''re-auth'', ''missing_scopes'', ''use-supported-auth''])"

definition plainTabFactory :: TabFactory where
  "plainTabFactory needWelcomeMessages disclaimer chatMessages =
     \<lparr>chatItems = Some [], loadingChat = Some False,
      promptInputDisabledState = Some False, contextCommands = None,
      quickActionCommands = None, promptInputStickyCard = None\<rparr>"

definition promptItem :: ChatItem where
  "promptItem =
     \<lparr>itemType = Some PROMPT, header = None,
      itemContent = emptyContent\<lparr>body := Some ''What is a monad?''\<rparr>\<rparr>"

definition streamItem :: ChatItem where
  "streamItem = \<lparr>itemType = Some ANSWER_STREAM, header = None, itemContent = emptyContent\<rparr>"

definition streamingTab :: MynahUIDataModel where
  "streamingTab =
     \<lparr>chatItems = Some [promptItem, streamItem], loadingChat = Some True,
      promptInputDisabledState = Some True, contextCommands = None,
      quickActionCommands = None, promptInputStickyCard = None\<rparr>"

definition idleTab :: MynahUIDataModel where
  "idleTab =
     \<lparr>chatItems = Some [], loadingChat = Some False,
      promptInputDisabledState = Some False, contextCommands = None,
      quickActionCommands = None, promptInputStickyCard = None\<rparr>"

definition streaming_client :: ChatClient where
  \<comment> \<open>Tab 1 has an open stream; tab 2 is idle and selected.\<close>
  "streaming_client =
     \<lparr>tabs = [(''tab-1'', streamingTab), (''tab-2'', idleTab)],
      selectedTabId = Some ''tab-2'',
      uidCounter = 3,
      uiCalls = [],
      sent = [],
      disclaimerCardActive = False,
      contextCommandGroups = None,
      defaultQuickActionCommands = None\<rparr>"

definition full_client :: ChatClient where
  \<comment> \<open>Ten live tabs, none selected.\<close>
  "full_client =
     \<lparr>tabs = map (\<lambda>n. (newTabId n, idleTab)) [0 ..< 9] @ [(''tab-9'', streamingTab)],
      selectedTabId = None,
      uidCounter = 10,
      uiCalls = [],
      sent = [],
      disclaimerCardActive = False,
      contextCommandGroups = None,
      defaultQuickActionCommands = None\<rparr>"

definition fresh_client :: ChatClient where
  \<comment> \<open>No tab yet.\<close>
  "fresh_client =
     \<lparr>tabs = [], selectedTabId = None, uidCounter = 0, uiCalls = [], sent = [],
      disclaimerCardActive = False, contextCommandGroups = None,
      defaultQuickActionCommands = None\<rparr>"

definition emptyResult :: ChatResult where
  \<comment> \<open>The object with no keys.\<close>
  "emptyResult = \<lparr>resultType = None, withoutType = emptyContent\<rparr>"

definition answerResult :: ChatResult where
  "answerResult =
     \<lparr>resultType = Some ''answer'',
      withoutType = emptyContent\<lparr>body := Some ''A monoid in the category of endofunctors.'',
                                 messageId := Some ''m-1''\<rparr>\<rparr>"

definition authResult :: ChatResult where
  "authResult =
     \<lparr>resultType = None,
      withoutType = emptyContent
        \<lparr>body := Some [],
         followUp := Some \<lparr>followUp_text = None,
                           options = Some [\<lparr>pillText = ''Authenticate'', option_prompt = None,
                                            option_type = Some ''full-auth''\<rparr>]\<rparr>\<rparr>\<rparr>"

definition clearPrompt :: ChatPrompt where
  "clearPrompt = \<lparr>prompt = Some [], escapedPrompt = Some [], command = Some ''/clear''\<rparr>"

definition helpPrompt :: ChatPrompt where
  "helpPrompt = \<lparr>prompt = Some [], escapedPrompt = Some [], command = Some ''/help''\<rparr>"

definition blank_path_context :: TriggerContext where
  \<comment> \<open>A cursor state together with the empty string as relative file path.\<close>
  "blank_path_context = example_context\<lparr>relativeFilePath := Some []\<rparr>"

definition sampleError :: ErrorParams where
  "sampleError =
     \<lparr>error_tabId = ''tab-1'', error_title = ''Request failed'',
      error_message = ''The service did not answer.''\<rparr>"

definition sampleTree :: ContextCommand where
  \<comment> \<open>Three levels, five nodes.\<close>
  "sampleTree =
     ContextCommand ''Files'' None None (Some ''file'') None None None
       (Some [ContextCommandGroup (Some ''Workspace'')
          [ContextCommand ''src'' (Some ''folder'') None (Some ''folder'') None None None
             (Some [ContextCommandGroup None
                [ContextCommand ''a.ts'' None None (Some ''file'') (Some ''id-a'')
                   (Some [''src'', ''a.ts'']) None None,
                 ContextCommand ''b.ts'' None None None None None None None]]),
           ContextCommand ''README'' None None (Some ''unknown-icon'') None None None None]])"

definition sampleIcon :: "string option \<Rightarrow> string option" where
  \<comment> \<open>An icon translation that keeps two names and drops every other one.\<close>
  "sampleIcon i =
     (case i of
        None \<Rightarrow> None
      | Some n \<Rightarrow> if n = ''file'' \<or> n = ''folder'' then Some n else None)"


section \<open>Intent guessing\<close>

lemma canonicalize_eq_iff_lower:
  "canonicalize a = canonicalize b \<longleftrightarrow> lower_ascii a = lower_ascii b"
proof -
  have aux: "((if 97 \<le> m \<and> m \<le> 122 then m - 32 else m)
                = (if 97 \<le> n \<and> n \<le> 122 then n - 32 else n))
     \<longleftrightarrow> ((if 65 \<le> m \<and> m \<le> 90 then m + 32 else m)
                = (if 65 \<le> n \<and> n \<le> 90 then n + 32 else n))"
    for m n :: nat
    by (auto split: if_splits)
  show ?thesis
    unfolding canonicalize_def lower_ascii_def Let_def
    by (rule aux)
qed

lemma test_anchored_i_prefix:
  "\<forall>c \<in> set p. lower_ascii c = of_char c \<Longrightarrow>
     test_anchored_i p s \<longleftrightarrow> prefix (map of_char p) (map lower_ascii s)"
  by (induction p s rule: test_anchored_i.induct) (auto simp: canonicalize_eq_iff_lower)

lemma guess_refines_table:
  "guessIntentFromPrompt (Some s) = spec_first_prefix_intent s"
  unfolding spec_first_prefix_intent_def guessIntentFromPrompt_def intent_table_def
  using test_anchored_i_prefix[of "''explain''" s] test_anchored_i_prefix[of "''refactor''" s]
        test_anchored_i_prefix[of "''fix''" s] test_anchored_i_prefix[of "''optimize''" s]
  by (simp add: lower_ascii_def)

text \<open>
  Claim C7.  For every prompt, \<open>guessIntentFromPrompt\<close> returns the intent of the first
  row of the ordered table explain, refactor, fix, optimize whose keyword is a prefix of
  the prompt read without regard to letter case, and no intent when no keyword is a
  prefix or the prompt is absent.  A keyword that only occurs later in the prompt, as in
  "please explain", gives no intent.
\<close>

theorem guessIntentFromPrompt_prefix_priority:
  "guessIntentFromPrompt None = None
   \<and> guessIntentFromPrompt (Some s) = spec_first_prefix_intent s
   \<and> guessIntentFromPrompt (Some ''Explain this function'') = Some EXPLAIN_CODE_SELECTION
   \<and> guessIntentFromPrompt (Some ''refactor it'') = Some SUGGEST_ALTERNATE_IMPLEMENTATION
   \<and> guessIntentFromPrompt (Some ''FIX the bug'') = Some APPLY_COMMON_BEST_PRACTICES
   \<and> guessIntentFromPrompt (Some ''optimize'') = Some IMPROVE_CODE
   \<and> guessIntentFromPrompt (Some ''hello'') = None
   \<and> guessIntentFromPrompt (Some ''please explain'') = None"
proof -
  have ex: "guessIntentFromPrompt (Some ''Explain this function'') = Some EXPLAIN_CODE_SELECTION"
    "guessIntentFromPrompt (Some ''refactor it'') = Some SUGGEST_ALTERNATE_IMPLEMENTATION"
    "guessIntentFromPrompt (Some ''FIX the bug'') = Some APPLY_COMMON_BEST_PRACTICES"
    "guessIntentFromPrompt (Some ''optimize'') = Some IMPROVE_CODE"
    "guessIntentFromPrompt (Some ''hello'') = None"
    "guessIntentFromPrompt (Some ''please explain'') = None"
    by (simp_all add: guessIntentFromPrompt_def canonicalize_def)
  have none: "guessIntentFromPrompt None = None"
    by (simp add: guessIntentFromPrompt_def)
  from none guess_refines_table ex show ?thesis by simp
qed


section \<open>Line-range labels\<close>

text \<open>
  Claim C3 as stated fails: the range (3, 10) is not labelled "line 3 - line 10".  The
  template in the source writes the word "line" once.
\<close>

theorem lineRangeLabel_counterexample:
  "lineRangeLabel \<lparr>first = 3, second = 10\<rparr> \<noteq> ''line 3 - line 10''"
  by (simp add: lineRangeLabel_def showInt_def showNat.simps digit_char_def)

text \<open>
  Claim C3, amended.  The label of a range (A, B) with neither bound equal to -1 is
  "line A - B" with both bounds in decimal, and a range with a bound equal to -1 is
  labelled by the empty string.  The label of a file is the labels of its ranges joined
  by a comma and a space, and is empty for a file without ranges.
\<close>

theorem lineRangeLabel_format:
  "(first r \<noteq> - 1 \<and> second r \<noteq> - 1 \<longrightarrow>
      lineRangeLabel r = ''line '' @ showInt (first r) @ '' - '' @ showInt (second r))
   \<and> (first r = - 1 \<or> second r = - 1 \<longrightarrow> lineRangeLabel r = [])
   \<and> fileLabel \<lparr>details_description = d, lineRanges = Some rs\<rparr>
         = join '', '' (map lineRangeLabel rs)
   \<and> fileLabel \<lparr>details_description = d, lineRanges = None\<rparr> = []"
  by (simp add: lineRangeLabel_def fileLabel_def)

theorem lineRangeLabel_format_witness:
  "lineRangeLabel \<lparr>first = 3, second = 10\<rparr> = ''line 3 - 10''
   \<and> lineRangeLabel \<lparr>first = - 1, second = 10\<rparr> = []
   \<and> lineRangeLabel \<lparr>first = 3, second = - 1\<rparr> = []"
  using lineRangeLabel_format[of "\<lparr>first = 3, second = 10\<rparr>"]
        lineRangeLabel_format[of "\<lparr>first = - 1, second = 10\<rparr>"]
        lineRangeLabel_format[of "\<lparr>first = 3, second = - 1\<rparr>"]
  by (simp add: showInt_def showNat.simps digit_char_def)


section \<open>Context command translation\<close>

lemma nodes_translation:
  "nodes (toContextCommand f c) = nodes c"
  "group_nodes (toContextCommandGroup f g) = group_nodes g"
proof (induction c and g)
  case (ContextCommand c d p i n r l ch)
  then show ?case
    by (cases ch) (simp_all add: comp_def cong: map_cong)
next
  case (ContextCommandGroup g cs)
  then show ?case
    by (simp add: comp_def cong: map_cong)
qed

lemma depth_translation:
  "depth (toContextCommand f c) = depth c"
  "group_depth (toContextCommandGroup f g) = group_depth g"
proof (induction c and g)
  case (ContextCommand c d p i n r l ch)
  then show ?case
    by (cases ch) (simp_all add: comp_def cong: map_cong)
next
  case (ContextCommandGroup g cs)
  then show ?case
    by (simp add: comp_def cong: map_cong)
qed

lemma icons_translation:
  "icons (toContextCommand f c) = map f (icons c)"
  "group_icons (toContextCommandGroup f g) = map f (group_icons g)"
proof (induction c and g)
  case (ContextCommand c d p i n r l ch)
  then show ?case
    by (cases ch) (simp_all add: comp_def map_concat cong: map_cong)
next
  case (ContextCommandGroup g cs)
  then show ?case
    by (simp add: comp_def map_concat cong: map_cong)
qed

lemma withoutIcons_translation:
  "withoutIcons (toContextCommand f c) = withoutIcons c"
  "group_withoutIcons (toContextCommandGroup f g) = group_withoutIcons g"
proof (induction c and g)
  case (ContextCommand c d p i n r l ch)
  then show ?case
    by (cases ch) (simp_all add: comp_def cong: map_cong)
next
  case (ContextCommandGroup g cs)
  then show ?case
    by (simp add: comp_def cong: map_cong)
qed

lemma identity_translation:
  "toContextCommand (\<lambda>i. i) c = c"
  "toContextCommandGroup (\<lambda>i. i) g = g"
proof (induction c and g)
  case (ContextCommand c d p i n r l ch)
  then show ?case
    by (cases ch) (simp_all add: map_idI)
next
  case (ContextCommandGroup g cs)
  then show ?case
    by (simp add: map_idI)
qed

lemma identity_translation_list: "map (toContextCommand (\<lambda>i. i)) cmds = cmds"
  by (induction cmds) (simp_all add: identity_translation)

lemma sampleTree_translated:
  "nodes sampleTree = 5 \<and> depth sampleTree = 3
   \<and> nodes (toContextCommand sampleIcon sampleTree) = 5
   \<and> depth (toContextCommand sampleIcon sampleTree) = 3
   \<and> icons sampleTree
        = [Some ''file'', Some ''folder'', Some ''file'', None, Some ''unknown-icon'']
   \<and> icons (toContextCommand sampleIcon sampleTree)
        = [Some ''file'', Some ''folder'', Some ''file'', None, None]"
  by (simp add: sampleTree_def sampleIcon_def)

text \<open>
  Claim C9.  \<open>toContextCommands\<close> is a function of its argument alone (the source builds
  new objects with spread and \<open>map\<close> and assigns to nothing it received), defined by
  recursion over trees of any depth.  For every list of command trees and every icon
  translation it keeps the number of trees, the number of nodes and the nesting depth of
  each tree; the icons of the result, in preorder, are the translated icons of the
  input; every field other than the icon is the same at every node; and with the
  identity as icon translation the result is the input itself.
\<close>

theorem toContextCommands_preserves_tree:
  "length (toContextCommands f cmds) = length cmds
   \<and> map nodes (toContextCommands f cmds) = map nodes cmds
   \<and> map depth (toContextCommands f cmds) = map depth cmds
   \<and> map icons (toContextCommands f cmds) = map (map f \<circ> icons) cmds
   \<and> map withoutIcons (toContextCommands f cmds) = map withoutIcons cmds
   \<and> toContextCommands (\<lambda>i. i) cmds = cmds"
  by (simp add: toContextCommands_def comp_def nodes_translation depth_translation
        icons_translation withoutIcons_translation identity_translation_list)


section \<open>Request payload\<close>

text \<open>
  Claim C8 as stated fails: a trigger context that has a cursor state and the empty
  string as relative file path yields a payload without editor state, because the
  source tests the path for truthiness.
\<close>

theorem getChatParamsFromTrigger_counterexample:
  "cursorState blank_path_context \<noteq> None
   \<and> relativeFilePath blank_path_context \<noteq> None
   \<and> editorState (userInputMessageContext (userInputMessage (conversationState
        (getChatParamsFromTrigger example_params blank_path_context MANUAL None None None))))
       = None"
  by (simp add: getChatParamsFromTrigger_def blank_path_context_def example_context_def
        truthyStr_def Let_def)

text \<open>
  Claim C8, amended.  The payload built from a trigger context always carries the prompt
  text, the escaped variant when there is one, and the origin tag "IDE".  It carries an
  editor-state block, made of the cursor state, the extracted text, the programming
  language and the relative file path of the context, if and only if the context has a
  cursor state and a non-empty relative file path; otherwise only the tool list is sent.
  The tool list is empty when none is supplied.
\<close>

theorem getChatParamsFromTrigger_payload:
  "(let msg = userInputMessage (conversationState
                (getChatParamsFromTrigger params ctx trig custArn profArn toolsArg));
        p = chatPrompt params
    in content msg = (case escapedPrompt p of Some e \<Rightarrow> Some e | None \<Rightarrow> prompt p)
       \<and> origin msg = ''IDE''
       \<and> (editorState (userInputMessageContext msg) \<noteq> None
            \<longleftrightarrow> cursorState ctx \<noteq> None \<and> relativeFilePath ctx \<noteq> None
                \<and> relativeFilePath ctx \<noteq> Some [])
       \<and> editorState (userInputMessageContext msg)
           = (if cursorState ctx \<noteq> None \<and> relativeFilePath ctx \<noteq> None
                 \<and> relativeFilePath ctx \<noteq> Some []
              then Some \<lparr>editor_cursorState = cursorState ctx,
                         document = \<lparr>document_text = context_text ctx,
                                     document_programmingLanguage = programmingLanguage ctx,
                                     document_relativeFilePath = relativeFilePath ctx\<rparr>\<rparr>
              else None)
       \<and> tools (userInputMessageContext msg) = (case toolsArg of None \<Rightarrow> [] | Some t \<Rightarrow> t))"
  by (cases "relativeFilePath ctx")
     (simp_all add: getChatParamsFromTrigger_def Let_def orElse_def truthyStr_def)


section \<open>The tab registry under the toolkit operations\<close>

lemma map_of_updTab:
  "map_of (updTab f tid ts) k = (if k = tid then map_option f (map_of ts k) else map_of ts k)"
  by (induction ts) (auto simp: updTab_def)

lemma length_updTab: "length (updTab f tid ts) = length ts"
  by (simp add: updTab_def)

lemma rewriteLast_snoc: "rewriteLast f (xs @ [x]) = xs @ [f x]"
  by (simp add: rewriteLast_def)

lemma map_of_snoc_other: "k \<noteq> k' \<Longrightarrow> map_of (ts @ [(k', v)]) k = map_of ts k"
  by (induction ts) auto

lemma map_of_snoc_same: "\<exists>s. map_of (ts @ [(k, v)]) k = Some s"
  by (induction ts) auto

lemma getTab_addChatItem:
  "getTab (addChatItem tid item c) k =
     (if k = tid then map_option (\<lambda>s. s\<lparr>chatItems := Some (itemsOf s @ [item])\<rparr>) (getTab c k)
      else getTab c k)"
  by (simp add: getTab_def addChatItem_def logCall_def Let_def map_of_updTab)

lemma getTab_updateLastChatAnswer:
  "getTab (updateLastChatAnswer tid upd c) k =
     (if k = tid
      then map_option
             (\<lambda>s. s\<lparr>chatItems := map_option (rewriteLast (mergeChatItem upd)) (chatItems s)\<rparr>)
             (getTab c k)
      else getTab c k)"
  by (simp add: getTab_def updateLastChatAnswer_def logCall_def Let_def map_of_updTab)

lemma getTab_endMessageStream:
  "getTab (endMessageStream tid mid c) k =
     (if k = tid
      then map_option (\<lambda>s. s\<lparr>chatItems := map_option (rewriteLast endStream) (chatItems s)\<rparr>)
             (getTab c k)
      else getTab c k)"
  by (simp add: getTab_def endMessageStream_def logCall_def Let_def map_of_updTab)

lemma getTab_updateStore:
  "tid \<noteq> [] \<Longrightarrow>
   getTab (snd (updateStore tid d c)) k =
     (if k = tid then map_option (mergeStore d) (getTab c k) else getTab c k)"
  by (simp add: getTab_def updateStore.simps logCall_def Let_def map_of_updTab)

lemma trace_addChatItem:
  "uiCalls (addChatItem tid item c) = uiCalls c @ [AddChatItemCall tid item]"
  "sent (addChatItem tid item c) = sent c"
  "selectedTabId (addChatItem tid item c) = selectedTabId c"
  by (simp_all add: addChatItem_def logCall_def Let_def)

lemma trace_updateLastChatAnswer:
  "uiCalls (updateLastChatAnswer tid upd c) = uiCalls c @ [UpdateLastChatAnswerCall tid upd]"
  "sent (updateLastChatAnswer tid upd c) = sent c"
  "selectedTabId (updateLastChatAnswer tid upd c) = selectedTabId c"
  by (simp_all add: updateLastChatAnswer_def logCall_def Let_def)

lemma trace_endMessageStream:
  "uiCalls (endMessageStream tid mid c) = uiCalls c @ [EndMessageStreamCall tid mid]"
  "sent (endMessageStream tid mid c) = sent c"
  "selectedTabId (endMessageStream tid mid c) = selectedTabId c"
  by (simp_all add: endMessageStream_def logCall_def Let_def)

lemma trace_updateStore:
  "tid \<noteq> [] \<Longrightarrow> uiCalls (snd (updateStore tid d c)) = uiCalls c @ [UpdateStoreCall tid d]"
  "tid \<noteq> [] \<Longrightarrow> sent (snd (updateStore tid d c)) = sent c"
  "tid \<noteq> [] \<Longrightarrow> selectedTabId (snd (updateStore tid d c)) = selectedTabId c"
  "tid \<noteq> [] \<Longrightarrow> fst (updateStore tid d c) = Some tid"
  by (simp_all add: updateStore.simps logCall_def Let_def)

lemma getTab_onTabAdd:
  "tid \<noteq> [] \<Longrightarrow>
   getTab (onTabAdd tid c) k =
     (if k = tid then map_option (mergeStore (defaultTabConfig c)) (getTab c k) else getTab c k)"
  by (simp add: onTabAdd.simps getTab_def updateStore.simps logCall_def send_def Let_def
        map_of_updTab)

lemma trace_onTabAdd:
  "tid \<noteq> [] \<Longrightarrow>
   uiCalls (onTabAdd tid c) = uiCalls c @ [UpdateStoreCall tid (defaultTabConfig c)]"
  "tid \<noteq> [] \<Longrightarrow> sent (onTabAdd tid c) = sent c @ [OnTabAdd tid]"
  "tid \<noteq> [] \<Longrightarrow> selectedTabId (onTabAdd tid c) = selectedTabId c"
  "tid \<noteq> [] \<Longrightarrow> length (tabs (onTabAdd tid c)) = length (tabs c)"
  by (simp_all add: onTabAdd.simps updateStore.simps logCall_def send_def Let_def
        length_updTab)

lemma trace_send:
  "uiCalls (send m c) = uiCalls c"
  "sent (send m c) = sent c @ [m]"
  "selectedTabId (send m c) = selectedTabId c"
  "getTab (send m c) k = getTab c k"
  by (simp_all add: send_def getTab_def)

lemma mergeStore_flags:
  "mergeStore \<lparr>chatItems = None, loadingChat = Some a, promptInputDisabledState = Some b,
      contextCommands = None,
      quickActionCommands = None, promptInputStickyCard = None\<rparr> s
   = s\<lparr>loadingChat := Some a, promptInputDisabledState := Some b\<rparr>"
  by (cases s) (simp add: mergeStore_def orElse_def)

lemma mergeStore_items:
  "mergeStore \<lparr>chatItems = Some xs, loadingChat = None, promptInputDisabledState = None,
      contextCommands = None,
      quickActionCommands = None, promptInputStickyCard = None\<rparr> s
   = s\<lparr>chatItems := Some xs\<rparr>"
  by (cases s) (simp add: mergeStore_def orElse_def)

lemma getTab_streaming_client:
  "getTab streaming_client ''tab-1'' = Some streamingTab"
  "getTab streaming_client ''tab-2'' = Some idleTab"
  by (simp_all add: getTab_def streaming_client_def)

lemma streaming_client_traces:
  "sent streaming_client = []" "uiCalls streaming_client = []"
  "selectedTabId streaming_client = Some ''tab-2''"
  by (simp_all add: streaming_client_def)

lemma getTab_unselected:
  "getTab (streaming_client\<lparr>selectedTabId := None\<rparr>) k = getTab streaming_client k"
  by (simp add: getTab_def)

lemma newTabId_nonempty: "newTabId n \<noteq> []"
  by (simp add: newTabId_def)

lemma newTabId_3: "newTabId 3 = ''tab-3''"
  by (simp add: newTabId_def showNat.simps digit_char_def)


section \<open>An empty final result\<close>

lemma objectKeys_empty_iff: "objectKeys r = [] \<longleftrightarrow> r = emptyResult"
  by (cases r, cases "withoutType r")
     (auto simp: objectKeys_def emptyResult_def emptyContent_def Let_def)

text \<open>
  Claim C6.  The result object with no keys, received as a non-partial update, changes
  nothing: the client state after \<open>addChatResponse\<close> is the state before it.  No chat
  item changes, no end-of-stream call and no notice is made, and the loading and
  input-disabled flags of every tab stay as they were.
\<close>

theorem empty_final_result_is_noop:
  "objectKeys emptyResult = []
   \<and> addChatResponse isValidAuthFollowUpType emptyResult tid False c = c"
  by (simp add: addChatResponse_def objectKeys_def emptyResult_def emptyContent_def Let_def)


section \<open>Tab creation at the cap\<close>

lemma defaultTabConfig_registered:
  "defaultTabConfig (c\<lparr>tabs := ts, selectedTabId := sel, uidCounter := n\<rparr>) = defaultTabConfig c"
  "defaultTabConfig (logCall k c) = defaultTabConfig c"
  by (simp_all add: defaultTabConfig_def logCall_def)

lemma updateStore_create:
  "length (tabs c) < maxTabs \<Longrightarrow>
   updateStore [] data c
     = (Some (newTabId (uidCounter c)),
        onTabAdd (newTabId (uidCounter c))
          ((logCall (UpdateStoreCall [] data) c)
             \<lparr>tabs := tabs c @ [(newTabId (uidCounter c), data)],
              selectedTabId := Some (newTabId (uidCounter c)),
              uidCounter := Suc (uidCounter c)\<rparr>))"
  by (simp add: updateStore.simps[of "[]"] logCall_def Let_def)

lemma createTabId_below_cap:
  "length (tabs c) < maxTabs \<Longrightarrow>
   fst (createTabId createTab needWelcome chatMessages c) = Some (newTabId (uidCounter c))
   \<and> length (tabs (snd (createTabId createTab needWelcome chatMessages c)))
       = Suc (length (tabs c))
   \<and> selectedTabId (snd (createTabId createTab needWelcome chatMessages c))
       = Some (newTabId (uidCounter c))"
  by (simp add: createTabId_def updateStore_create trace_onTabAdd newTabId_nonempty logCall_def)

lemma createTabs_length:
  "length (tabs c) + n \<le> maxTabs \<Longrightarrow>
   length (tabs (createTabs createTab n c)) = length (tabs c) + n"
proof (induction n arbitrary: c)
  case 0
  then show ?case by simp
next
  case (Suc n)
  have lt: "length (tabs c) < maxTabs" using Suc.prems by simp
  have step: "length (tabs (snd (createTabId createTab False None c))) = Suc (length (tabs c))"
    using createTabId_below_cap[OF lt, of createTab False None] by simp
  show ?case
    using Suc.IH[of "snd (createTabId createTab False None c)"] Suc.prems step by simp
qed

text \<open>
  Claim C4.  With ten or more live tabs, \<open>createTabId\<close> returns no tab id, leaves the
  tab registry and the selection as they were, sends nothing to the backend, and makes
  exactly two toolkit calls: the single creation attempt, which is not repeated, and a
  notice of type warning with the "no more tabs" text.  The function returns normally.
  In particular, after ten successive creations from an empty registry the registry
  holds ten tabs and the eleventh creation fails in this way.  The cap itself is
  enforced by the toolkit, configured with \<open>maxTabs\<close>.
\<close>

theorem createTabId_at_cap:
  "(maxTabs \<le> length (tabs c) \<longrightarrow>
      fst (createTabId createTab needWelcome chatMessages c) = None
      \<and> tabs (snd (createTabId createTab needWelcome chatMessages c)) = tabs c
      \<and> selectedTabId (snd (createTabId createTab needWelcome chatMessages c)) = selectedTabId c
      \<and> sent (snd (createTabId createTab needWelcome chatMessages c)) = sent c
      \<and> uiCalls (snd (createTabId createTab needWelcome chatMessages c))
          = uiCalls c
            @ [UpdateStoreCall [] (createTab needWelcome (disclaimerCardActive c) chatMessages),
               NotifyCall noMoreTabsTooltip WARNING])
   \<and> (tabs c = [] \<longrightarrow>
        (let full = createTabs createTab maxTabs c
         in length (tabs full) = maxTabs
            \<and> fst (createTabId createTab needWelcome chatMessages full) = None
            \<and> tabs (snd (createTabId createTab needWelcome chatMessages full)) = tabs full))"
proof -
  have cap: "fst (createTabId createTab needWelcome chatMessages d) = None
      \<and> tabs (snd (createTabId createTab needWelcome chatMessages d)) = tabs d
      \<and> selectedTabId (snd (createTabId createTab needWelcome chatMessages d)) = selectedTabId d
      \<and> sent (snd (createTabId createTab needWelcome chatMessages d)) = sent d
      \<and> uiCalls (snd (createTabId createTab needWelcome chatMessages d))
          = uiCalls d
            @ [UpdateStoreCall [] (createTab needWelcome (disclaimerCardActive d) chatMessages),
               NotifyCall noMoreTabsTooltip WARNING]"
    if "maxTabs \<le> length (tabs d)" for d
    using that by (simp add: createTabId_def updateStore.simps logCall_def notify_def Let_def)
  have run: "length (tabs (createTabs createTab maxTabs c)) = maxTabs" if "tabs c = []"
    using createTabs_length[of c maxTabs createTab] that by simp
  show ?thesis
    using cap[of c] cap[of "createTabs createTab maxTabs c"] run
    by (simp add: Let_def)
qed

theorem createTabId_at_cap_witness:
  "length (tabs full_client) = 10
   \<and> fst (createTabId plainTabFactory True None full_client) = None
   \<and> tabs (snd (createTabId plainTabFactory True None full_client)) = tabs full_client
   \<and> uiCalls (snd (createTabId plainTabFactory True None full_client))
       = [UpdateStoreCall [] idleTab,
          NotifyCall ''You can only open ten conversation tabs at a time.'' WARNING]
   \<and> length (tabs (createTabs plainTabFactory 10 fresh_client)) = 10
   \<and> fst (createTabId plainTabFactory True None (createTabs plainTabFactory 10 fresh_client))
       = None"
proof -
  have f: "maxTabs \<le> length (tabs full_client)" "length (tabs full_client) = 10"
    "uiCalls full_client = []" "disclaimerCardActive full_client = False"
    by (simp_all add: full_client_def maxTabs_def)
  have e: "tabs fresh_client = []" by (simp add: fresh_client_def)
  show ?thesis
    using createTabId_at_cap[of full_client plainTabFactory True None]
      createTabId_at_cap[of fresh_client plainTabFactory True None]
    by (simp add: f e Let_def maxTabs_def plainTabFactory_def idleTab_def
          noMoreTabsTooltip_def)
qed

section \<open>Authentication follow-up\<close>

lemma isValidAuthFollowUp_first:
  "followUp (withoutType r) = Some fu \<Longrightarrow> options fu = Some (opt # rest) \<Longrightarrow>
   option_type opt = Some t \<Longrightarrow> t \<noteq> [] \<Longrightarrow> isValid t \<Longrightarrow> isValidAuthFollowUp isValid r"
  by (simp add: isValidAuthFollowUp_def)

text \<open>
  Claim C5.  A non-partial result whose body is the empty string and whose first
  follow-up option carries a type that the recogniser accepts (a non-empty string, the
  empty one being falsy in the source's test) is appended to the tab as a new
  system-prompt item.  The item sequence before it, the open streaming item included, is
  untouched; the only toolkit call is that \<open>addChatItem\<close>, so no end-of-stream call is
  made; the loading and input-disabled flags keep their values.
\<close>

theorem auth_follow_up_is_system_prompt:
  assumes "body (withoutType r) = Some []"
    and "followUp (withoutType r) = Some fu"
    and "options fu = Some (opt # rest)"
    and "option_type opt = Some t"
    and "t \<noteq> []"
    and "isValid t"
  shows
    "(let c' = addChatResponse isValid r tid False c;
          item = \<lparr>itemType = Some SYSTEM_PROMPT, header = None, itemContent = withoutType r\<rparr>
      in uiCalls c' = uiCalls c @ [AddChatItemCall tid item]
         \<and> sent c' = sent c
         \<and> getTab c' tid
              = map_option (\<lambda>s. s\<lparr>chatItems := Some (itemsOf s @ [item])\<rparr>) (getTab c tid)
         \<and> map_option loadingChat (getTab c' tid) = map_option loadingChat (getTab c tid)
         \<and> map_option promptInputDisabledState (getTab c' tid)
              = map_option promptInputDisabledState (getTab c tid)
         \<and> (\<forall>k. k \<noteq> tid \<longrightarrow> getTab c' k = getTab c k))"
proof -
  have auth: "isValidAuthFollowUp isValid r"
    using assms(2-6) by (rule isValidAuthFollowUp_first)
  have keys: "objectKeys r \<noteq> []"
    using assms(1) by (simp add: objectKeys_def Let_def)
  have step: "addChatResponse isValid r tid False c
      = addChatItem tid \<lparr>itemType = Some SYSTEM_PROMPT, header = None, itemContent = withoutType r\<rparr> c"
    using auth keys assms(1) by (simp add: addChatResponse_def Let_def)
  show ?thesis
    unfolding Let_def step
    by (simp add: trace_addChatItem getTab_addChatItem option.map_comp comp_def)
qed

theorem auth_follow_up_is_system_prompt_witness:
  "(let c' = addChatResponse knownAuthType authResult ''tab-1'' False streaming_client
    in map_option (map itemType \<circ> itemsOf) (getTab c' ''tab-1'')
         = Some [Some PROMPT, Some ANSWER_STREAM, Some SYSTEM_PROMPT]
       \<and> map_option loadingChat (getTab c' ''tab-1'') = Some (Some True)
       \<and> map_option promptInputDisabledState (getTab c' ''tab-1'') = Some (Some True)
       \<and> uiCalls c'
           = [AddChatItemCall ''tab-1''
                \<lparr>itemType = Some SYSTEM_PROMPT, header = None,
                 itemContent = withoutType authResult\<rparr>])"
  using auth_follow_up_is_system_prompt[of authResult
          "\<lparr>followUp_text = None,
            options = Some [\<lparr>pillText = ''Authenticate'', option_prompt = None,
                             option_type = Some ''full-auth''\<rparr>]\<rparr>"
          "\<lparr>pillText = ''Authenticate'', option_prompt = None, option_type = Some ''full-auth''\<rparr>"
          "[]" "''full-auth''" knownAuthType "''tab-1''" streaming_client]
  by (simp add: authResult_def emptyContent_def knownAuthType_def streaming_client_def
        getTab_def streamingTab_def itemsOf_def promptItem_def streamItem_def Let_def)


section \<open>Partial and final results\<close>

lemma itemType_mergeChatItem_partial:
  "itemType (mergeChatItem \<lparr>itemType = None, header = h, itemContent = w\<rparr> x) = itemType x"
  by (simp add: mergeChatItem_def orElse_def)

text \<open>
  Claim C1 as stated fails: a non-partial result does not reset the two flags whatever
  its content.  On a tab that is loading, the empty result leaves both flags set, and an
  authentication follow-up leaves both flags set and appends an item behind the
  streaming item, which stays open.
\<close>

theorem final_result_counterexample:
  "(let c' = addChatResponse knownAuthType emptyResult ''tab-1'' False streaming_client
    in map_option loadingChat (getTab c' ''tab-1'') = Some (Some True)
       \<and> map_option promptInputDisabledState (getTab c' ''tab-1'') = Some (Some True))
   \<and> (let c' = addChatResponse knownAuthType authResult ''tab-1'' False streaming_client
    in map_option loadingChat (getTab c' ''tab-1'') = Some (Some True)
       \<and> map_option promptInputDisabledState (getTab c' ''tab-1'') = Some (Some True)
       \<and> map_option (map itemType \<circ> itemsOf) (getTab c' ''tab-1'')
           = Some [Some PROMPT, Some ANSWER_STREAM, Some SYSTEM_PROMPT])"
  by (simp add: addChatResponse_def objectKeys_def emptyResult_def authResult_def
        emptyContent_def isValidAuthFollowUp_def knownAuthType_def Let_def
        getTab_addChatItem getTab_streaming_client streamingTab_def itemsOf_def
        promptItem_def streamItem_def)

lemma rewriteLast_shape:
  "length (rewriteLast f xs) = length xs"
  "butlast (rewriteLast f xs) = butlast xs"
  by (simp_all add: rewriteLast_def)

lemma rewriteLast_itemType:
  "(\<And>x. itemType (f x) = itemType x) \<Longrightarrow> map itemType (rewriteLast f xs) = map itemType xs"
proof (cases "xs = []")
  case True
  then show ?thesis by (simp add: rewriteLast_def)
next
  case False
  assume f: "\<And>x. itemType (f x) = itemType x"
  from False have "xs = butlast xs @ [last xs]" by simp
  then have "map itemType xs = map itemType (butlast xs) @ [itemType (last xs)]"
    by (metis list.simps(8,9) map_append)
  with False f show ?thesis by (simp add: rewriteLast_def)
qed

text \<open>
  Claim C1, amended.  For every tab, a partial result makes the single toolkit call
  \<open>updateLastChatAnswer\<close>: the number and the kinds of the tab's items stay as they were,
  every item but the last is untouched, the last item has its content rewritten in
  place, and other tabs and the flags are unchanged, so no second streaming item is
  appended.  For every tab, a non-partial result that is neither the empty object nor an
  authentication follow-up rewrites the last item, issues the end-of-stream call for the
  message id (the empty string when there is none) and sets loadingChat and
  promptInputDisabledState to false, whatever the tab's items are; no item is added or
  removed, and a last item that is an open streaming answer becomes the terminal answer.
\<close>

theorem addChatResponse_partial_and_final:
  "(let upd = \<lparr>itemType = None, header = contextHeader r, itemContent = withoutType r\<rparr>;
         c' = addChatResponse isValid r tid True c
     in uiCalls c' = uiCalls c @ [UpdateLastChatAnswerCall tid upd]
        \<and> sent c' = sent c
        \<and> (\<forall>k. k \<noteq> tid \<longrightarrow> getTab c' k = getTab c k)
        \<and> map_option (map itemType \<circ> itemsOf) (getTab c' tid)
             = map_option (map itemType \<circ> itemsOf) (getTab c tid)
        \<and> map_option (butlast \<circ> itemsOf) (getTab c' tid)
             = map_option (butlast \<circ> itemsOf) (getTab c tid)
        \<and> map_option loadingChat (getTab c' tid) = map_option loadingChat (getTab c tid)
        \<and> map_option promptInputDisabledState (getTab c' tid)
             = map_option promptInputDisabledState (getTab c tid)
        \<and> (\<forall>s xs x. getTab c tid = Some s \<and> chatItems s = Some (xs @ [x]) \<longrightarrow>
              getTab c' tid = Some (s\<lparr>chatItems := Some (xs @ [mergeChatItem upd x])\<rparr>)
              \<and> itemType (mergeChatItem upd x) = itemType x
              \<and> itemContent (mergeChatItem upd x)
                   = mergeContent (withoutType r) (itemContent x)))
   \<and> (tid \<noteq> [] \<and> objectKeys r \<noteq> []
        \<and> \<not> (body (withoutType r) = Some [] \<and> isValidAuthFollowUp isValid r) \<longrightarrow>
        (let w = withoutType r;
             mid = (case messageId w of None \<Rightarrow> [] | Some m \<Rightarrow> m);
             fus = (case followUp w of
                      Some fu \<Rightarrow>
                        \<lparr>followUp_text =
                           orElse (followUp_text fu) (Some ''Suggested follow up questions:''),
                         options = options fu\<rparr>
                    | None \<Rightarrow> \<lparr>followUp_text = None, options = None\<rparr>);
             fin = \<lparr>itemType = None, header = contextHeader r,
                    itemContent =
                      \<lparr>body = body w, messageId = messageId w, canBeVoted = canBeVoted w,
                       relatedContent = relatedContent w, followUp = Some fus,
                       contextList = None, codeReference = None\<rparr>\<rparr>;
             c' = addChatResponse isValid r tid False c
         in uiCalls c'
              = uiCalls c
                @ [UpdateLastChatAnswerCall tid fin,
                   EndMessageStreamCall tid mid,
                   UpdateStoreCall tid
                     \<lparr>chatItems = None, loadingChat = Some False,
                      promptInputDisabledState = Some False, contextCommands = None,
                      quickActionCommands = None, promptInputStickyCard = None\<rparr>]
            \<and> sent c' = sent c
            \<and> (\<forall>k. k \<noteq> tid \<longrightarrow> getTab c' k = getTab c k)
            \<and> map_option loadingChat (getTab c' tid)
                 = map_option (\<lambda>s. Some False) (getTab c tid)
            \<and> map_option promptInputDisabledState (getTab c' tid)
                 = map_option (\<lambda>s. Some False) (getTab c tid)
            \<and> map_option (length \<circ> itemsOf) (getTab c' tid)
                 = map_option (length \<circ> itemsOf) (getTab c tid)
            \<and> map_option (butlast \<circ> itemsOf) (getTab c' tid)
                 = map_option (butlast \<circ> itemsOf) (getTab c tid)
            \<and> (\<forall>s xs x. getTab c tid = Some s \<and> chatItems s = Some (xs @ [x])
                    \<and> itemType x = Some ANSWER_STREAM \<longrightarrow>
                  getTab c' tid
                    = Some (s\<lparr>chatItems := Some (xs @ [endStream (mergeChatItem fin x)]),
                              loadingChat := Some False,
                              promptInputDisabledState := Some False\<rparr>)
                  \<and> itemType (endStream (mergeChatItem fin x)) = Some ANSWER
                  \<and> body (itemContent (endStream (mergeChatItem fin x)))
                       = orElse (body w) (body (itemContent x)))))"
proof -
  have partial: "addChatResponse isValid r tid True c
      = updateLastChatAnswer tid
          \<lparr>itemType = None, header = contextHeader r, itemContent = withoutType r\<rparr> c"
    by (simp add: addChatResponse_def Let_def)
  have keep: "itemType (mergeChatItem \<lparr>itemType = None, header = h, itemContent = w\<rparr> x)
      = itemType x" for h w x
    by (rule itemType_mergeChatItem_partial)
  have A: "(let upd = \<lparr>itemType = None, header = contextHeader r, itemContent = withoutType r\<rparr>;
         c' = addChatResponse isValid r tid True c
     in uiCalls c' = uiCalls c @ [UpdateLastChatAnswerCall tid upd]
        \<and> sent c' = sent c
        \<and> (\<forall>k. k \<noteq> tid \<longrightarrow> getTab c' k = getTab c k)
        \<and> map_option (map itemType \<circ> itemsOf) (getTab c' tid)
             = map_option (map itemType \<circ> itemsOf) (getTab c tid)
        \<and> map_option (butlast \<circ> itemsOf) (getTab c' tid)
             = map_option (butlast \<circ> itemsOf) (getTab c tid)
        \<and> map_option loadingChat (getTab c' tid) = map_option loadingChat (getTab c tid)
        \<and> map_option promptInputDisabledState (getTab c' tid)
             = map_option promptInputDisabledState (getTab c tid)
        \<and> (\<forall>s xs x. getTab c tid = Some s \<and> chatItems s = Some (xs @ [x]) \<longrightarrow>
              getTab c' tid = Some (s\<lparr>chatItems := Some (xs @ [mergeChatItem upd x])\<rparr>)
              \<and> itemType (mergeChatItem upd x) = itemType x
              \<and> itemContent (mergeChatItem upd x)
                   = mergeContent (withoutType r) (itemContent x)))"
  proof (cases "getTab c tid")
    case None
    then show ?thesis
      unfolding Let_def partial
      by (simp add: getTab_updateLastChatAnswer trace_updateLastChatAnswer)
  next
    case (Some s)
    then show ?thesis
      unfolding Let_def partial
      by (cases "chatItems s")
         (simp_all add: getTab_updateLastChatAnswer trace_updateLastChatAnswer
            rewriteLast_snoc rewriteLast_shape rewriteLast_itemType keep itemsOf_def
            mergeChatItem_def orElse_def)
  qed
  have B: "(let w = withoutType r;
             mid = (case messageId w of None \<Rightarrow> [] | Some m \<Rightarrow> m);
             fus = (case followUp w of
                      Some fu \<Rightarrow>
                        \<lparr>followUp_text =
                           orElse (followUp_text fu) (Some ''Suggested follow up questions:''),
                         options = options fu\<rparr>
                    | None \<Rightarrow> \<lparr>followUp_text = None, options = None\<rparr>);
             fin = \<lparr>itemType = None, header = contextHeader r,
                    itemContent =
                      \<lparr>body = body w, messageId = messageId w, canBeVoted = canBeVoted w,
                       relatedContent = relatedContent w, followUp = Some fus,
                       contextList = None, codeReference = None\<rparr>\<rparr>;
             c' = addChatResponse isValid r tid False c
         in uiCalls c'
              = uiCalls c
                @ [UpdateLastChatAnswerCall tid fin,
                   EndMessageStreamCall tid mid,
                   UpdateStoreCall tid
                     \<lparr>chatItems = None, loadingChat = Some False,
                      promptInputDisabledState = Some False, contextCommands = None,
                      quickActionCommands = None, promptInputStickyCard = None\<rparr>]
            \<and> sent c' = sent c
            \<and> (\<forall>k. k \<noteq> tid \<longrightarrow> getTab c' k = getTab c k)
            \<and> map_option loadingChat (getTab c' tid)
                 = map_option (\<lambda>s. Some False) (getTab c tid)
            \<and> map_option promptInputDisabledState (getTab c' tid)
                 = map_option (\<lambda>s. Some False) (getTab c tid)
            \<and> map_option (length \<circ> itemsOf) (getTab c' tid)
                 = map_option (length \<circ> itemsOf) (getTab c tid)
            \<and> map_option (butlast \<circ> itemsOf) (getTab c' tid)
                 = map_option (butlast \<circ> itemsOf) (getTab c tid)
            \<and> (\<forall>s xs x. getTab c tid = Some s \<and> chatItems s = Some (xs @ [x])
                    \<and> itemType x = Some ANSWER_STREAM \<longrightarrow>
                  getTab c' tid
                    = Some (s\<lparr>chatItems := Some (xs @ [endStream (mergeChatItem fin x)]),
                              loadingChat := Some False,
                              promptInputDisabledState := Some False\<rparr>)
                  \<and> itemType (endStream (mergeChatItem fin x)) = Some ANSWER
                  \<and> body (itemContent (endStream (mergeChatItem fin x)))
                       = orElse (body w) (body (itemContent x))))"
    if ne: "tid \<noteq> []" and keys: "objectKeys r \<noteq> []"
      and na: "\<not> (body (withoutType r) = Some [] \<and> isValidAuthFollowUp isValid r)"
  proof (cases "getTab c tid")
    case None
    then show ?thesis
      using ne keys na
      by (cases "body (withoutType r) = Some []")
         (simp_all add: addChatResponse_def Let_def getTab_updateStore getTab_endMessageStream
            getTab_updateLastChatAnswer trace_updateStore trace_endMessageStream
            trace_updateLastChatAnswer)
  next
    case (Some s)
    then show ?thesis
      using ne keys na
      by (cases "body (withoutType r) = Some []"; cases "chatItems s")
         (simp_all add: addChatResponse_def Let_def getTab_updateStore getTab_endMessageStream
            getTab_updateLastChatAnswer trace_updateStore trace_endMessageStream
            trace_updateLastChatAnswer rewriteLast_snoc rewriteLast_shape mergeStore_flags
            itemsOf_def endStream_def mergeChatItem_def mergeContent_def orElse_def)
  qed
  from A B show ?thesis by blast
qed

theorem addChatResponse_partial_and_final_witness:
  "(let c' = addChatResponse knownAuthType answerResult ''tab-1'' True streaming_client
    in map_option (\<lambda>s. (map itemType (itemsOf s), loadingChat s, promptInputDisabledState s))
         (getTab c' ''tab-1'')
       = Some ([Some PROMPT, Some ANSWER_STREAM], Some True, Some True))
   \<and> (let c' = addChatResponse knownAuthType answerResult ''tab-1'' False streaming_client
    in map_option (\<lambda>s. (map itemType (itemsOf s), loadingChat s, promptInputDisabledState s))
         (getTab c' ''tab-1'')
       = Some ([Some PROMPT, Some ANSWER], Some False, Some False)
       \<and> map_option (\<lambda>s. body (itemContent (last (itemsOf s)))) (getTab c' ''tab-1'')
           = Some (Some ''A monoid in the category of endofunctors.''))
   \<and> (let c' = addChatResponse knownAuthType answerResult ''tab-2'' False streaming_client
    in map_option (\<lambda>s. (itemsOf s, loadingChat s, promptInputDisabledState s))
         (getTab c' ''tab-2'')
       = Some ([], Some False, Some False)
       \<and> getTab c' ''tab-1'' = Some streamingTab)"
proof -
  have keys: "objectKeys answerResult \<noteq> []"
    "\<not> (body (withoutType answerResult) = Some []
        \<and> isValidAuthFollowUp knownAuthType answerResult)"
    by (simp_all add: answerResult_def emptyContent_def objectKeys_def Let_def)
  have items: "chatItems streamingTab = Some ([promptItem] @ [streamItem])"
    "itemType streamItem = Some ANSWER_STREAM"
    by (simp_all add: streamingTab_def streamItem_def)
  note th1 = addChatResponse_partial_and_final[where r = answerResult
      and tid = "''tab-1''" and isValid = knownAuthType and c = streaming_client]
  note th2 = addChatResponse_partial_and_final[where r = answerResult
      and tid = "''tab-2''" and isValid = knownAuthType and c = streaming_client]
  have P: "getTab (addChatResponse knownAuthType answerResult ''tab-1'' True streaming_client)
        ''tab-1''
      = Some (streamingTab\<lparr>chatItems := Some ([promptItem]
          @ [mergeChatItem \<lparr>itemType = None, header = contextHeader answerResult,
                            itemContent = withoutType answerResult\<rparr> streamItem])\<rparr>)"
    using th1 getTab_streaming_client(1) items(1) by (simp add: Let_def)
  have F: "getTab (addChatResponse knownAuthType answerResult ''tab-1'' False streaming_client)
        ''tab-1''
      = Some (streamingTab\<lparr>chatItems := Some ([promptItem]
          @ [endStream (mergeChatItem
               \<lparr>itemType = None, header = contextHeader answerResult,
                itemContent =
                  \<lparr>body = body (withoutType answerResult),
                   messageId = messageId (withoutType answerResult),
                   canBeVoted = canBeVoted (withoutType answerResult),
                   relatedContent = relatedContent (withoutType answerResult),
                   followUp = Some \<lparr>followUp_text = None, options = None\<rparr>,
                   contextList = None, codeReference = None\<rparr>\<rparr> streamItem)]),
          loadingChat := Some False, promptInputDisabledState := Some False\<rparr>)"
    using th1 keys getTab_streaming_client(1) items
    by (simp add: Let_def answerResult_def emptyContent_def)
  have G: "map_option loadingChat
        (getTab (addChatResponse knownAuthType answerResult ''tab-2'' False streaming_client)
           ''tab-2'') = Some (Some False)"
    "map_option promptInputDisabledState
        (getTab (addChatResponse knownAuthType answerResult ''tab-2'' False streaming_client)
           ''tab-2'') = Some (Some False)"
    "map_option (length \<circ> itemsOf)
        (getTab (addChatResponse knownAuthType answerResult ''tab-2'' False streaming_client)
           ''tab-2'') = Some 0"
    "getTab (addChatResponse knownAuthType answerResult ''tab-2'' False streaming_client)
           ''tab-1'' = Some streamingTab"
    using th2 keys getTab_streaming_client
    by (simp_all add: Let_def idleTab_def itemsOf_def del: map_option_eq_Some)
  from G obtain s2 where s2: "getTab (addChatResponse knownAuthType answerResult ''tab-2'' False
        streaming_client) ''tab-2'' = Some s2"
    and f2: "loadingChat s2 = Some False" "promptInputDisabledState s2 = Some False"
      "length (itemsOf s2) = 0"
    by auto
  show ?thesis
    unfolding Let_def P F s2
    using f2 G(4)
    by (simp add: streamingTab_def streamItem_def promptItem_def answerResult_def
          emptyContent_def itemsOf_def mergeChatItem_def mergeContent_def endStream_def
          orElse_def contextHeader_def)
qed


section \<open>Quick-action commands\<close>

text \<open>
  Claim C2 as stated fails: submitting the command "/clear" hands a quick-action message
  to the messager, so an outbound message is emitted.
\<close>

theorem clear_command_counterexample:
  "sent streaming_client = []
   \<and> sent (handleChatPrompt ''tab-1'' clearPrompt (Some Click) streaming_client)
       = [OnQuickActionCommand ''/clear'' (Some []) ''tab-1'']"
  by (simp add: handleChatPrompt_def clearPrompt_def truthyStr_def Let_def trace_send
        trace_updateStore streaming_client_def)

text \<open>
  Claim C2, amended.  A prompt that carries a non-empty quick-action command always
  emits exactly one quick-action message with that command to the backend, with the
  default help prompt as text for "/help" and the escaped prompt otherwise.  For
  "/clear" the tab's item sequence becomes empty, the only toolkit call is that store
  update, and no prompt or streaming item is added.  For any other command the prompt
  item and an empty streaming item are appended and the tab is set loading.
\<close>

theorem handleChatPrompt_quick_action:
  assumes "command p = Some cmd"
    and "cmd \<noteq> []"
    and "tid \<noteq> []"
  shows
    "(let c' = handleChatPrompt tid p trig c;
          userPrompt = (if cmd = ''/help'' then Some DEFAULT_HELP_PROMPT else escapedPrompt p);
          promptIt = \<lparr>itemType = Some PROMPT, header = None,
                      itemContent = emptyContent\<lparr>body := userPrompt\<rparr>\<rparr>;
          streamIt = \<lparr>itemType = Some ANSWER_STREAM, header = None, itemContent = emptyContent\<rparr>
      in sent c' = sent c @ [OnQuickActionCommand cmd userPrompt tid]
         \<and> (\<forall>k. k \<noteq> tid \<longrightarrow> getTab c' k = getTab c k)
         \<and> (cmd = ''/clear'' \<longrightarrow>
               getTab c' tid = map_option (\<lambda>s. s\<lparr>chatItems := Some []\<rparr>) (getTab c tid)
               \<and> uiCalls c'
                   = uiCalls c
                     @ [UpdateStoreCall tid
                          \<lparr>chatItems = Some [], loadingChat = None,
                           promptInputDisabledState = None, contextCommands = None,
      quickActionCommands = None, promptInputStickyCard = None\<rparr>])
         \<and> (cmd \<noteq> ''/clear'' \<longrightarrow>
               getTab c' tid
                 = map_option
                     (\<lambda>s. s\<lparr>chatItems := Some (itemsOf s @ [promptIt, streamIt]),
                             loadingChat := Some True, promptInputDisabledState := Some True\<rparr>)
                     (getTab c tid)
               \<and> uiCalls c'
                   = uiCalls c
                     @ [AddChatItemCall tid promptIt,
                        UpdateStoreCall tid
                          \<lparr>chatItems = None, loadingChat = Some True,
                           promptInputDisabledState = Some True, contextCommands = None,
      quickActionCommands = None, promptInputStickyCard = None\<rparr>,
                        AddChatItemCall tid streamIt]))"
proof (cases "cmd = ''/clear''")
  case True
  then show ?thesis
    using assms
    by (cases "getTab c tid")
       (simp_all add: handleChatPrompt_def truthyStr_def Let_def trace_send trace_updateStore
          getTab_updateStore mergeStore_items)
next
  case False
  then show ?thesis
    using assms
    by (cases "getTab c tid")
       (simp_all add: handleChatPrompt_def showPromptAndStream_def truthyStr_def Let_def
          trace_send trace_updateStore trace_addChatItem getTab_updateStore
          getTab_addChatItem mergeStore_flags itemsOf_def)
qed

theorem handleChatPrompt_quick_action_witness:
  "(let c' = handleChatPrompt ''tab-1'' clearPrompt (Some Click) streaming_client
    in sent c' = [OnQuickActionCommand ''/clear'' (Some []) ''tab-1'']
       \<and> map_option chatItems (getTab c' ''tab-1'') = Some (Some [])
       \<and> map_option loadingChat (getTab c' ''tab-1'') = Some (Some True))
   \<and> (let c' = handleChatPrompt ''tab-2'' helpPrompt (Some Click) streaming_client
    in sent c' = [OnQuickActionCommand ''/help'' (Some ''What can Amazon Q help me with?'') ''tab-2'']
       \<and> map_option (map itemType \<circ> itemsOf) (getTab c' ''tab-2'')
            = Some [Some PROMPT, Some ANSWER_STREAM]
       \<and> map_option loadingChat (getTab c' ''tab-2'') = Some (Some True))"
  using handleChatPrompt_quick_action[of clearPrompt "''/clear''" "''tab-1''" "Some Click"
          streaming_client]
        handleChatPrompt_quick_action[of helpPrompt "''/help''" "''tab-2''" "Some Click"
          streaming_client]
  by (simp add: clearPrompt_def helpPrompt_def DEFAULT_HELP_PROMPT_def Let_def
        getTab_streaming_client streamingTab_def idleTab_def itemsOf_def
        streaming_client_traces emptyContent_def)


section \<open>Showing an error\<close>

lemma getOrCreateTabId_selected:
  "selectedTabId c = Some sel \<Longrightarrow> getOrCreateTabId createTab c = (Some sel, c)"
  by (simp add: getOrCreateTabId_def getSelectedTabId_def)

lemma getOrCreateTabId_full:
  "selectedTabId c = None \<Longrightarrow> maxTabs \<le> length (tabs c) \<Longrightarrow>
   getOrCreateTabId createTab c
     = (None, notify noMoreTabsTooltip WARNING
                (logCall (UpdateStoreCall [] (createTab False (disclaimerCardActive c) None)) c))"
  by (simp add: getOrCreateTabId_def getSelectedTabId_def createTabId_def updateStore.simps
        logCall_def Let_def)

lemma getOrCreateTabId_room:
  "selectedTabId c = None \<Longrightarrow> length (tabs c) < maxTabs \<Longrightarrow>
   getOrCreateTabId createTab c
     = (Some (newTabId (uidCounter c)),
        onTabAdd (newTabId (uidCounter c))
          ((logCall (UpdateStoreCall [] (createTab False (disclaimerCardActive c) None)) c)
             \<lparr>tabs := tabs c @ [(newTabId (uidCounter c),
                                  createTab False (disclaimerCardActive c) None)],
              selectedTabId := Some (newTabId (uidCounter c)),
              uidCounter := Suc (uidCounter c)\<rparr>))"
  by (simp add: getOrCreateTabId_def getSelectedTabId_def createTabId_def updateStore_create)

text \<open>
  Claim C10.  \<open>showError\<close> clears loadingChat and promptInputDisabledState on the
  selected tab and appends the error answer to the tab named by the parameters; when the
  two differ, the flags of the named tab keep their values.  With no tab selected and
  room for one, a tab is created first, with the tab-add handler run by the toolkit, and
  the flags of the new tab are cleared.  With no tab selected and the cap reached,
  \<open>showError\<close> does nothing at all after the failed creation: the state it returns is
  the one \<open>createTabId\<close> left, in which no tab has changed and nothing was sent; the
  "no more tabs" notice in it is the failed creation's own.
\<close>

theorem showError_flags_and_item:
  "(let c' = showError createTab params c;
        named = error_tabId params;
        answer = \<lparr>itemType = Some ANSWER, header = None,
                  itemContent = emptyContent
                    \<lparr>body := Some (''**'' @ error_title params @ ''** '' @ [CHR 0x0A]
                                    @ error_message params)\<rparr>\<rparr>
    in (\<forall>sel. selectedTabId c = Some sel \<and> sel \<noteq> [] \<longrightarrow>
          map_option loadingChat (getTab c' sel) = map_option (\<lambda>s. Some False) (getTab c sel)
          \<and> map_option promptInputDisabledState (getTab c' sel)
               = map_option (\<lambda>s. Some False) (getTab c sel)
          \<and> map_option itemsOf (getTab c' named)
               = map_option (\<lambda>s. itemsOf s @ [answer]) (getTab c named)
          \<and> (named \<noteq> sel \<longrightarrow>
                map_option loadingChat (getTab c' named) = map_option loadingChat (getTab c named)
                \<and> map_option promptInputDisabledState (getTab c' named)
                     = map_option promptInputDisabledState (getTab c named))
          \<and> (\<forall>k. k \<noteq> sel \<and> k \<noteq> named \<longrightarrow> getTab c' k = getTab c k)
          \<and> selectedTabId c' = Some sel
          \<and> sent c' = sent c @ [OnError params]
          \<and> uiCalls c' = uiCalls c @ [UpdateStoreCall sel 
                      \<lparr>chatItems = None, loadingChat = Some False,
                       promptInputDisabledState = Some False, contextCommands = None,
                       quickActionCommands = None, promptInputStickyCard = None\<rparr>, AddChatItemCall named answer])
       \<and> (selectedTabId c = None \<and> length (tabs c) < maxTabs \<longrightarrow>
            (let new = newTabId (uidCounter c)
             in selectedTabId c' = Some new
                \<and> map_option loadingChat (getTab c' new) = Some (Some False)
                \<and> map_option promptInputDisabledState (getTab c' new) = Some (Some False)
                \<and> (named \<noteq> new \<longrightarrow>
                      map_option itemsOf (getTab c' named)
                        = map_option (\<lambda>s. itemsOf s @ [answer]) (getTab c named)
                      \<and> map_option loadingChat (getTab c' named)
                          = map_option loadingChat (getTab c named)
                      \<and> map_option promptInputDisabledState (getTab c' named)
                          = map_option promptInputDisabledState (getTab c named))
                \<and> sent c' = sent c @ [OnTabAdd new, OnError params]
                \<and> uiCalls c'
                     = uiCalls c
                       @ [UpdateStoreCall [] (createTab False (disclaimerCardActive c) None),
                          UpdateStoreCall new (defaultTabConfig c),
                          UpdateStoreCall new 
                            \<lparr>chatItems = None, loadingChat = Some False,
                       promptInputDisabledState = Some False, contextCommands = None,
                       quickActionCommands = None, promptInputStickyCard = None\<rparr>,
                          AddChatItemCall named answer]))
       \<and> (selectedTabId c = None \<and> maxTabs \<le> length (tabs c) \<longrightarrow>
            c' = snd (createTabId createTab False None c)
            \<and> tabs c' = tabs c
            \<and> selectedTabId c' = None
            \<and> sent c' = sent c
            \<and> uiCalls c'
                 = uiCalls c
                   @ [UpdateStoreCall [] (createTab False (disclaimerCardActive c) None),
                      NotifyCall noMoreTabsTooltip WARNING]))"
proof -
  define answer where "answer = \<lparr>itemType = Some ANSWER, header = None,
                  itemContent = emptyContent
                    \<lparr>body := Some (''**'' @ error_title params @ ''** '' @ [CHR 0x0A]
                                    @ error_message params)\<rparr>\<rparr>"
  define flags where "flags = \<lparr>chatItems = None, loadingChat = Some False,
                       promptInputDisabledState = Some False, contextCommands = None,
                       quickActionCommands = None, promptInputStickyCard = None\<rparr>"
  have run: "showError createTab params c
      = send (OnError params)
          (addChatItem (error_tabId params) answer (snd (updateStore tid flags c1)))"
    if "getOrCreateTabId createTab c = (Some tid, c1)" and "tid \<noteq> []" for tid c1
    using that by (simp add: showError_def Let_def answer_def flags_def)
  have mf: "mergeStore flags s
      = s\<lparr>loadingChat := Some False, promptInputDisabledState := Some False\<rparr>" for s
    unfolding flags_def by (rule mergeStore_flags)
  have sel: "map_option loadingChat (getTab c' sel) = map_option (\<lambda>s. Some False) (getTab c sel)
          \<and> map_option promptInputDisabledState (getTab c' sel)
               = map_option (\<lambda>s. Some False) (getTab c sel)
          \<and> map_option itemsOf (getTab c' (error_tabId params))
               = map_option (\<lambda>s. itemsOf s @ [answer]) (getTab c (error_tabId params))
          \<and> (error_tabId params \<noteq> sel \<longrightarrow>
                map_option loadingChat (getTab c' (error_tabId params)) = map_option loadingChat (getTab c (error_tabId params))
                \<and> map_option promptInputDisabledState (getTab c' (error_tabId params))
                     = map_option promptInputDisabledState (getTab c (error_tabId params)))
          \<and> (\<forall>k. k \<noteq> sel \<and> k \<noteq> error_tabId params \<longrightarrow> getTab c' k = getTab c k)
          \<and> selectedTabId c' = Some sel
          \<and> sent c' = sent c @ [OnError params]
          \<and> uiCalls c' = uiCalls c @ [UpdateStoreCall sel flags, AddChatItemCall (error_tabId params) answer]"
    if s: "selectedTabId c = Some sel" and ne: "sel \<noteq> []"
      and c': "c' = showError createTab params c" for sel c'
  proof -
    have eq: "c' = send (OnError params)
          (addChatItem (error_tabId params) answer (snd (updateStore sel flags c)))"
      unfolding c' using getOrCreateTabId_selected[OF s] ne by (rule run)
    show ?thesis
      unfolding eq using ne s
      by (cases "getTab c sel"; cases "getTab c (error_tabId params)")
         (auto simp: trace_send trace_addChatItem trace_updateStore getTab_addChatItem
            getTab_updateStore mf itemsOf_def)
  qed
  have room: "selectedTabId c' = Some new
                \<and> map_option loadingChat (getTab c' new) = Some (Some False)
                \<and> map_option promptInputDisabledState (getTab c' new) = Some (Some False)
                \<and> (error_tabId params \<noteq> new \<longrightarrow>
                      map_option itemsOf (getTab c' (error_tabId params))
                        = map_option (\<lambda>s. itemsOf s @ [answer]) (getTab c (error_tabId params))
                      \<and> map_option loadingChat (getTab c' (error_tabId params))
                          = map_option loadingChat (getTab c (error_tabId params))
                      \<and> map_option promptInputDisabledState (getTab c' (error_tabId params))
                          = map_option promptInputDisabledState (getTab c (error_tabId params)))
                \<and> sent c' = sent c @ [OnTabAdd new, OnError params]
                \<and> uiCalls c'
                     = uiCalls c
                       @ [UpdateStoreCall [] (createTab False (disclaimerCardActive c) None),
                          UpdateStoreCall new (defaultTabConfig c),
                          UpdateStoreCall new flags,
                          AddChatItemCall (error_tabId params) answer]"
    if s: "selectedTabId c = None" and lt: "length (tabs c) < maxTabs"
      and c': "c' = showError createTab params c" and new: "new = newTabId (uidCounter c)"
    for c' new
  proof -
    define c0 where "c0 =
        (logCall (UpdateStoreCall [] (createTab False (disclaimerCardActive c) None)) c)
          \<lparr>tabs := tabs c @ [(new, createTab False (disclaimerCardActive c) None)],
           selectedTabId := Some new,
           uidCounter := Suc (uidCounter c)\<rparr>"
    define c1 where "c1 = onTabAdd new c0"
    have g: "getOrCreateTabId createTab c = (Some new, c1)"
      unfolding c1_def c0_def new by (rule getOrCreateTabId_room[OF s lt])
    have ne: "new \<noteq> []" unfolding new by (rule newTabId_nonempty)
    have eq: "c' = send (OnError params)
          (addChatItem (error_tabId params) answer (snd (updateStore new flags c1)))"
      unfolding c' using g ne by (rule run)
    have tabs0: "tabs c0 = tabs c @ [(new, createTab False (disclaimerCardActive c) None)]"
      by (simp add: c0_def logCall_def)
    have "\<exists>s. getTab c0 new = Some s"
      unfolding getTab_def tabs0 by (rule map_of_snoc_same)
    then obtain s0 where s0: "getTab c0 new = Some s0" ..
    have s1: "getTab c1 new = Some (mergeStore (defaultTabConfig c0) s0)"
      unfolding c1_def using ne s0 by (simp add: getTab_onTabAdd)
    have other: "getTab c1 k = getTab c k" if "k \<noteq> new" for k
    proof -
      have "getTab c1 k = getTab c0 k"
        unfolding c1_def using ne that by (simp add: getTab_onTabAdd)
      also have "\<dots> = getTab c k"
        unfolding getTab_def tabs0 using that by (rule map_of_snoc_other)
      finally show ?thesis .
    qed
    have cfg: "defaultTabConfig c0 = defaultTabConfig c"
      by (simp add: c0_def defaultTabConfig_def logCall_def)
    have tr: "sent c1 = sent c @ [OnTabAdd new]" "selectedTabId c1 = Some new"
      "uiCalls c1 = uiCalls c
         @ [UpdateStoreCall [] (createTab False (disclaimerCardActive c) None),
            UpdateStoreCall new (defaultTabConfig c)]"
      unfolding c1_def using ne by (simp_all add: trace_onTabAdd cfg) (simp_all add: c0_def logCall_def)
    show ?thesis
      unfolding eq using ne s1 tr
      by (cases "getTab c (error_tabId params)")
         (auto simp: trace_send trace_addChatItem trace_updateStore getTab_addChatItem
            getTab_updateStore mf itemsOf_def other)
  qed
  have full: "c' = snd (createTabId createTab False None c)
            \<and> tabs c' = tabs c
            \<and> selectedTabId c' = None
            \<and> sent c' = sent c
            \<and> uiCalls c'
                 = uiCalls c
                   @ [UpdateStoreCall [] (createTab False (disclaimerCardActive c) None),
                      NotifyCall noMoreTabsTooltip WARNING]"
    if s: "selectedTabId c = None" and ge: "maxTabs \<le> length (tabs c)"
      and c': "c' = showError createTab params c" for c'
    unfolding c' using s ge
    by (simp add: showError_def getOrCreateTabId_full[OF s ge] getOrCreateTabId_def
          getSelectedTabId_def createTabId_def updateStore.simps Let_def notify_def logCall_def)
  show ?thesis
    unfolding Let_def
    using sel[OF _ _ refl] room[OF _ _ refl refl] full[OF _ _ refl]
    unfolding answer_def flags_def
    by blast
qed

theorem showError_flags_and_item_witness:
  "(let c' = showError plainTabFactory sampleError streaming_client
    in map_option loadingChat (getTab c' ''tab-2'') = Some (Some False)
       \<and> map_option promptInputDisabledState (getTab c' ''tab-2'') = Some (Some False)
       \<and> map_option loadingChat (getTab c' ''tab-1'') = Some (Some True)
       \<and> map_option promptInputDisabledState (getTab c' ''tab-1'') = Some (Some True)
       \<and> map_option (map itemType \<circ> itemsOf) (getTab c' ''tab-1'')
            = Some [Some PROMPT, Some ANSWER_STREAM, Some ANSWER]
       \<and> sent c' = [OnError sampleError])
   \<and> (let c' = showError plainTabFactory sampleError (streaming_client\<lparr>selectedTabId := None\<rparr>)
    in selectedTabId c' = Some ''tab-3''
       \<and> map_option loadingChat (getTab c' ''tab-3'') = Some (Some False)
       \<and> map_option loadingChat (getTab c' ''tab-1'') = Some (Some True)
       \<and> sent c' = [OnTabAdd ''tab-3'', OnError sampleError])
   \<and> (let c' = showError plainTabFactory sampleError full_client
    in c' = snd (createTabId plainTabFactory False None full_client)
       \<and> tabs c' = tabs full_client \<and> selectedTabId c' = None \<and> sent c' = []
       \<and> uiCalls c' = [UpdateStoreCall [] idleTab, NotifyCall noMoreTabsTooltip WARNING])"
proof -
  have len: "length (tabs streaming_client) < maxTabs" "maxTabs \<le> length (tabs full_client)"
    "\<not> length (tabs full_client) < maxTabs"
    by (simp_all add: streaming_client_def full_client_def maxTabs_def)
  have misc: "uidCounter streaming_client = 3" "selectedTabId full_client = None"
    "sent full_client = []" "uiCalls full_client = []" "error_tabId sampleError = ''tab-1''"
    "disclaimerCardActive full_client = False"
    by (simp_all add: streaming_client_def full_client_def sampleError_def)
  have A: "(let c' = showError plainTabFactory sampleError streaming_client
    in map_option loadingChat (getTab c' ''tab-2'') = Some (Some False)
       \<and> map_option promptInputDisabledState (getTab c' ''tab-2'') = Some (Some False)
       \<and> map_option loadingChat (getTab c' ''tab-1'') = Some (Some True)
       \<and> map_option promptInputDisabledState (getTab c' ''tab-1'') = Some (Some True)
       \<and> map_option (map itemType \<circ> itemsOf) (getTab c' ''tab-1'')
            = Some [Some PROMPT, Some ANSWER_STREAM, Some ANSWER]
       \<and> sent c' = [OnError sampleError])"
    using showError_flags_and_item[of plainTabFactory sampleError streaming_client]
    by (simp add: Let_def misc streaming_client_traces getTab_streaming_client
          streamingTab_def idleTab_def itemsOf_def promptItem_def streamItem_def
          option.map_comp [symmetric]
          del: map_option_eq_Some)
  have B: "(let c' = showError plainTabFactory sampleError (streaming_client\<lparr>selectedTabId := None\<rparr>)
    in selectedTabId c' = Some ''tab-3''
       \<and> map_option loadingChat (getTab c' ''tab-3'') = Some (Some False)
       \<and> map_option loadingChat (getTab c' ''tab-1'') = Some (Some True)
       \<and> sent c' = [OnTabAdd ''tab-3'', OnError sampleError])"
    using showError_flags_and_item[of plainTabFactory sampleError
        "streaming_client\<lparr>selectedTabId := None\<rparr>"]
    by (simp add: Let_def len misc getTab_streaming_client getTab_unselected newTabId_3
          streamingTab_def streaming_client_traces
          del: map_option_eq_Some)
  have C: "(let c' = showError plainTabFactory sampleError full_client
    in c' = snd (createTabId plainTabFactory False None full_client)
       \<and> tabs c' = tabs full_client \<and> selectedTabId c' = None \<and> sent c' = []
       \<and> uiCalls c' = [UpdateStoreCall [] idleTab, NotifyCall noMoreTabsTooltip WARNING])"
    using showError_flags_and_item[of plainTabFactory sampleError full_client]
    apply (simp add: Let_def len misc plainTabFactory_def idleTab_def)
    apply (elim conjE)
    apply simp
    done
  from A B C show ?thesis by simp
qed

end
